theory Spec2Isabelle
  imports Main
begin

section \<open>Python values\<close>

text \<open>
  The pipeline of \<^verbatim>\<open>src/main.py\<close> works on untyped values: what
  \<^verbatim>\<open>response.json()\<close> returns and the dictionaries the program builds from it.
  They are modelled by one datatype. A string is a list of code points below 256 (the
  Latin-1 part of a Python \<^verbatim>\<open>str\<close>); a dictionary is an association list in
  insertion order with distinct keys, looked up with \<open>map_of\<close> (keys are compared
  as values of the datatype; the keys of this program are strings and
  \<^verbatim>\<open>None\<close>). A float is \<open>Finite m e\<close> for \<open>m * 2 ^ e\<close>, an infinity with
  its sign, or a NaN; only its truth value and \<^verbatim>\<open>int()\<close> of it are used.
  Logging is left out: it changes no result.
\<close>

datatype pyfloat = Finite int int | Infinite bool | NaN

datatype pyval =
    PyNone
  | PyBool bool
  | PyInt int
  | PyFloat pyfloat
  | PyStr string
  | PyList "pyval list"
  | PyDict "(pyval \<times> pyval) list"

text \<open>Every exception class the modelled code can raise or let through.\<close>

datatype error =
    TypeError
  | KeyError pyval
  | IndexError
  | AttributeError
  | ValueError
  | OverflowError
  | JSONDecodeError
  | OSError
  | RequestException
  | NoYearError
  | APIConnectionError
  | APIAnswerWrongDataError
  | NoFilmsError
  | UnauthorisedError
  | RequestLimitExceededError
  | TooManyRequestsError
  | NotFoundError

text \<open>Truth value of a value, as \<^verbatim>\<open>if value:\<close> tests it.\<close>

fun truthy :: "pyval \<Rightarrow> bool" where
  "truthy PyNone = False"
| "truthy (PyBool b) = b"
| "truthy (PyInt n) = (n \<noteq> 0)"
| "truthy (PyFloat f) = (case f of Finite m e \<Rightarrow> m \<noteq> 0 | Infinite s \<Rightarrow> True | NaN \<Rightarrow> True)"
| "truthy (PyStr s) = (s \<noteq> [])"
| "truthy (PyList xs) = (xs \<noteq> [])"
| "truthy (PyDict d) = (d \<noteq> [])"

text \<open>\<^verbatim>\<open>d.get(k)\<close>: the value, or \<^verbatim>\<open>None\<close> for a missing key.\<close>

definition dict_get :: "(pyval \<times> pyval) list \<Rightarrow> string \<Rightarrow> pyval" where
  "dict_get d k = (case map_of d (PyStr k) of None \<Rightarrow> PyNone | Some v \<Rightarrow> v)"

text \<open>
  \<^verbatim>\<open>v.get(k)\<close> on any value: only a dictionary has the method.
\<close>

fun py_get :: "pyval \<Rightarrow> string \<Rightarrow> error + pyval" where
  "py_get (PyDict d) k = Inr (dict_get d k)"
| "py_get v k = Inl AttributeError"

text \<open>
  \<^verbatim>\<open>d[k] = v\<close>: an existing key keeps its place, a new key goes to the end. A list
  or a dictionary is not hashable and cannot be a key.
\<close>

fun dict_set :: "(pyval \<times> pyval) list \<Rightarrow> pyval \<Rightarrow> pyval \<Rightarrow> (pyval \<times> pyval) list" where
  "dict_set [] k v = [(k, v)]"
| "dict_set ((k', v') # d) k v = (if k' = k then (k, v) # d else (k', v') # dict_set d k v)"

fun hashable :: "pyval \<Rightarrow> bool" where
  "hashable (PyList xs) = False"
| "hashable (PyDict d) = False"
| "hashable v = True"

text \<open>
  What a \<^verbatim>\<open>for\<close> loop iterates over: the elements of a list, the characters of
  a string, the keys of a dictionary; anything else is not iterable.
\<close>

fun py_iter :: "pyval \<Rightarrow> error + pyval list" where
  "py_iter (PyList xs) = Inr xs"
| "py_iter (PyStr s) = Inr (map (\<lambda>c. PyStr [c]) s)"
| "py_iter (PyDict d) = Inr (map fst d)"
| "py_iter v = Inl TypeError"

text \<open>
  \<^verbatim>\<open>v[k]\<close> with a string key: a dictionary raises \<^verbatim>\<open>KeyError\<close> for a
  missing key, every other value raises \<^verbatim>\<open>TypeError\<close> (a list or a string wants
  an integer index, the rest is not subscriptable).
\<close>

fun getitem :: "pyval \<Rightarrow> string \<Rightarrow> error + pyval" where
  "getitem (PyDict d) k =
     (case map_of d (PyStr k) of None \<Rightarrow> Inl (KeyError (PyStr k)) | Some v \<Rightarrow> Inr v)"
| "getitem v k = Inl TypeError"

text \<open>\<^verbatim>\<open>xs[i]\<close> on a list: \<^verbatim>\<open>IndexError\<close> out of range.\<close>

definition list_get :: "'a list \<Rightarrow> nat \<Rightarrow> error + 'a" where
  "list_get xs i = (if i < length xs then Inr (xs ! i) else Inl IndexError)"

text \<open>
  \<^verbatim>\<open>str.isdigit()\<close>: at least one character, all of them digits. Below code
  point 256 the digits are \<^verbatim>\<open>0\<close> to \<^verbatim>\<open>9\<close> and the superscripts two,
  three and one (178, 179, 185).
\<close>

definition isdigit_char :: "char \<Rightarrow> bool" where
  "isdigit_char c =
     (let n = (of_char c :: nat) in (48 \<le> n \<and> n \<le> 57) \<or> n = 178 \<or> n = 179 \<or> n = 185)"

definition isdigit :: "string \<Rightarrow> bool" where
  "isdigit s = (s \<noteq> [] \<and> list_all isdigit_char s)"

text \<open>\<^verbatim>\<open>a > b\<close> on strings: lexicographic on code points, a proper prefix is smaller.\<close>

fun str_gt :: "string \<Rightarrow> string \<Rightarrow> bool" where
  "str_gt [] bs = False"
| "str_gt (a # as) [] = True"
| "str_gt (a # as) (b # bs) =
     ((of_char b :: nat) < of_char a \<or> (a = b \<and> str_gt as bs))"

text \<open>
  \<^verbatim>\<open>str(v)\<close>. A string is itself, \<^verbatim>\<open>None\<close> and the booleans print
  their names, an integer prints in decimal and raises \<^verbatim>\<open>ValueError\<close> beyond
  4300 digits (the interpreter's limit on integer string conversion). The text of a
  float, a list or a dictionary is a parameter \<open>repr\<close>: the interpreter's, not the
  repository's.
\<close>

fun digits10 :: "nat \<Rightarrow> string" where
  "digits10 n =
     (if n < 10 then [''0123456789'' ! n]
      else digits10 (n div 10) @ [''0123456789'' ! (n mod 10)])"

declare digits10.simps [simp del]

definition str_int :: "int \<Rightarrow> error + string" where
  "str_int n =
     (let ds = digits10 (nat \<bar>n\<bar>) in
      if 4300 < length ds then Inl ValueError
      else Inr (if n < 0 then CHR ''-'' # ds else ds))"

fun py_str :: "(pyval \<Rightarrow> error + string) \<Rightarrow> pyval \<Rightarrow> error + string" where
  "py_str repr (PyStr s) = Inr s"
| "py_str repr PyNone = Inr ''None''"
| "py_str repr (PyBool b) = Inr (if b then ''True'' else ''False'')"
| "py_str repr (PyInt n) = str_int n"
| "py_str repr v = repr v"

text \<open>
  Strings. \<open>ascii_digit\<close> is a decimal digit (what \<^verbatim>\<open>\d\<close> and
  \<^verbatim>\<open>int()\<close> accept below code point 256); \<open>py_isspace\<close> is white space,
  what \<^verbatim>\<open>\s\<close> matches and \<^verbatim>\<open>strip()\<close> removes at both ends: code
  points 9 to 13, 28 to 32, 133 and 160.
\<close>

definition ascii_digit :: "char \<Rightarrow> bool" where
  "ascii_digit c = (48 \<le> (of_char c :: nat) \<and> (of_char c :: nat) \<le> 57)"

definition py_isspace :: "char \<Rightarrow> bool" where
  "py_isspace c =
     (let n = (of_char c :: nat) in
      (9 \<le> n \<and> n \<le> 13) \<or> (28 \<le> n \<and> n \<le> 32) \<or> n = 133 \<or> n = 160)"

definition lstrip :: "string \<Rightarrow> string" where
  "lstrip s = dropWhile py_isspace s"

definition rstrip :: "string \<Rightarrow> string" where
  "rstrip s = rev (dropWhile py_isspace (rev s))"

definition strip :: "string \<Rightarrow> string" where
  "strip s = rstrip (lstrip s)"

text \<open>\<^verbatim>\<open>sep.join(xs)\<close> on strings.\<close>

fun join :: "string \<Rightarrow> string list \<Rightarrow> string" where
  "join sep [] = []"
| "join sep [x] = x"
| "join sep (x # y # xs) = x @ sep @ join sep (y # xs)"

text \<open>
  \<^verbatim>\<open>int(v)\<close>. A string is stripped of white space and read as an optional
  sign and decimal digits, with single underscores allowed between digits and at most
  4300 digits; otherwise \<^verbatim>\<open>ValueError\<close>. A float is cut towards zero; an
  infinity raises \<^verbatim>\<open>OverflowError\<close>, a NaN \<^verbatim>\<open>ValueError\<close>.
  \<^verbatim>\<open>None\<close>, a list and a dictionary raise \<^verbatim>\<open>TypeError\<close>.
\<close>

fun digit_groups :: "string \<Rightarrow> bool" where
  "digit_groups [] = False"
| "digit_groups [c] = ascii_digit c"
| "digit_groups (c # d # r) =
     (ascii_digit c \<and> (if d = CHR ''_'' then digit_groups r else digit_groups (d # r)))"

definition dig :: "char \<Rightarrow> nat" where
  "dig c = of_char c - 48"

definition decimal_value :: "string \<Rightarrow> nat" where
  "decimal_value ds = foldl (\<lambda>n c. 10 * n + dig c) 0 ds"

definition parse_int :: "string \<Rightarrow> int option" where
  "parse_int s =
     (let t = strip s;
          negative = (t \<noteq> [] \<and> hd t = CHR ''-'');
          body = (if t \<noteq> [] \<and> (hd t = CHR ''-'' \<or> hd t = CHR ''+'') then tl t else t);
          ds = filter ascii_digit body
      in if digit_groups body \<and> length ds \<le> 4300
         then Some (if negative then - int (decimal_value ds) else int (decimal_value ds))
         else None)"

definition float_trunc :: "int \<Rightarrow> int \<Rightarrow> int" where
  "float_trunc m e =
     (if 0 \<le> e then m * 2 ^ nat e
      else if 0 \<le> m then m div 2 ^ nat (- e)
      else - ((- m) div 2 ^ nat (- e)))"

fun py_int :: "pyval \<Rightarrow> error + int" where
  "py_int (PyInt n) = Inr n"
| "py_int (PyBool b) = Inr (if b then 1 else 0)"
| "py_int (PyFloat f) =
     (case f of
        Finite m e \<Rightarrow> Inr (float_trunc m e)
      | Infinite s \<Rightarrow> Inl OverflowError
      | NaN \<Rightarrow> Inl ValueError)"
| "py_int (PyStr s) = (case parse_int s of None \<Rightarrow> Inl ValueError | Some n \<Rightarrow> Inr n)"
| "py_int v = Inl TypeError"

text \<open>
  \<^verbatim>\<open>os.path.join\<close> of two parts and \<^verbatim>\<open>os.path.splitext\<close>, as
  \<^verbatim>\<open>posixpath\<close> defines them: a second part that starts with a slash replaces
  the first; the extension starts at the last dot of the last component, unless only
  dots come before it there.
\<close>

definition path_join :: "string \<Rightarrow> string \<Rightarrow> string" where
  "path_join a b =
     (if b \<noteq> [] \<and> hd b = CHR ''/'' then b
      else if a = [] \<or> last a = CHR ''/'' then a @ b
      else a @ ''/'' @ b)"

fun rfind :: "char \<Rightarrow> string \<Rightarrow> nat option" where
  "rfind c [] = None"
| "rfind c (x # xs) =
     (case rfind c xs of
        Some i \<Rightarrow> Some (Suc i)
      | None \<Rightarrow> if x = c then Some 0 else None)"

definition splitext :: "string \<Rightarrow> string \<times> string" where
  "splitext p =
     (let start = (case rfind (CHR ''/'') p of None \<Rightarrow> 0 | Some i \<Rightarrow> Suc i) in
      case rfind (CHR ''.'') p of
        None \<Rightarrow> (p, [])
      | Some dot \<Rightarrow>
          if start \<le> dot \<and> list_ex (\<lambda>ch. ch \<noteq> CHR ''.'') (take (dot - start) (drop start p))
          then (take dot p, drop dot p)
          else (p, []))"

section \<open>The catalog client\<close>

text \<open>
  What \<^verbatim>\<open>requests.get\<close> gives: a \<^verbatim>\<open>RequestException\<close>, or a response
  with its status code and its body as \<^verbatim>\<open>.json()\<close> decodes it (\<open>None\<close> when
  the body is not JSON and \<^verbatim>\<open>.json()\<close> raises).
\<close>

datatype http_result = Transport_failure | Response int "pyval option"

text \<open>
  The outside world of one run. The three endpoints answer by the search keyword and by
  the film id; \<^verbatim>\<open>ttl_cache\<close> only repeats an earlier answer for the same
  arguments, so with answers that are functions of the arguments it is not visible.
  \<open>fetch\<close> is \<^verbatim>\<open>requests.get(url=...).content\<close>, \<open>render\<close> the XML
  serialisation of the standard library (from \<^verbatim>\<open>tostring\<close> to the joined
  lines), \<open>makedirs\<close> and \<open>write_file\<close> the file system: each either raises
  or succeeds. An element of the XML tree has a tag, a text and children.
\<close>

datatype xml = Element pyval pyval "xml list"

record env =
  search_api :: "string \<Rightarrow> http_result"
  film_api :: "string \<Rightarrow> http_result"
  staff_api :: "string \<Rightarrow> http_result"
  py_repr :: "pyval \<Rightarrow> error + string"
  fetch :: "pyval \<Rightarrow> error + string"
  render :: "xml \<Rightarrow> error + string"
  makedirs :: "string \<Rightarrow> error option"
  write_file :: "string \<Rightarrow> error option"

text \<open>\<^verbatim>\<open>check_request_status\<close> of \<^verbatim>\<open>utils/validators.py\<close>, case by case.\<close>

definition check_request_status :: "int \<Rightarrow> error + unit" where
  "check_request_status status_code =
     (if status_code = 401 then Inl UnauthorisedError
      else if status_code = 402 then Inl RequestLimitExceededError
      else if status_code = 429 then Inl TooManyRequestsError
      else if status_code = 200 then Inr ()
      else if status_code = 404 then Inr ()
      else Inl APIConnectionError)"

text \<open>
  The messages the functions return, by their data: the Russian text around the values is
  fixed.
\<close>

datatype msg =
    Msg_year_found pyval string
  | Msg_latest_release string string
  | Msg_nfo_created
  | Msg_nfo_error error
  | Msg_posters_saved
  | Msg_posters_error error
  | Msg_summary pyval pyval

subsection \<open>\<^verbatim>\<open>get_film_id\<close>\<close>

text \<open>
  The check on a candidate's year:
  \<^verbatim>\<open>len(film_year) != 4 or not film_year.isdigit()\<close>. \<^verbatim>\<open>len\<close> raises
  \<^verbatim>\<open>TypeError\<close> on a value without a length; a list or a dictionary of length 4
  has no \<^verbatim>\<open>isdigit\<close>.
\<close>

fun year_field :: "pyval \<Rightarrow> error + string" where
  "year_field (PyStr s) =
     (if length s \<noteq> 4 \<or> \<not> isdigit s then Inl APIAnswerWrongDataError else Inr s)"
| "year_field (PyList xs) =
     (if length xs \<noteq> 4 then Inl APIAnswerWrongDataError else Inl AttributeError)"
| "year_field (PyDict d) =
     (if length d \<noteq> 4 then Inl APIAnswerWrongDataError else Inl AttributeError)"
| "year_field v = Inl TypeError"

text \<open>
  The loop over \<^verbatim>\<open>enumerate(films)\<close>, with the rest of the list, the index
  \<open>idx\<close> and the two loop variables. \<open>film\<close> is \<^verbatim>\<open>films[idx]\<close>. The
  latest release is updated before the years are compared; on a year match the message
  is built first (it reads \<^verbatim>\<open>film['nameRu']\<close>), then the identifier. The
  flag \<^verbatim>\<open>is_year_found\<close> is false whenever the loop body runs. After the loop
  the function returns the film at \<^verbatim>\<open>last_released_film_idx\<close>.
\<close>

fun films_loop ::
  "(pyval \<Rightarrow> error + string) \<Rightarrow> string \<Rightarrow> string \<Rightarrow> pyval list \<Rightarrow> pyval list \<Rightarrow> nat \<Rightarrow> string \<Rightarrow> nat
     \<Rightarrow> error + (bool \<times> string \<times> msg)" where
  "films_loop repr title year films [] idx last_release_year last_released_film_idx =
     (case list_get films last_released_film_idx of
        Inl e \<Rightarrow> Inl e
      | Inr film \<Rightarrow>
          (case getitem film ''filmId'' of
             Inl e \<Rightarrow> Inl e
           | Inr film_id \<Rightarrow>
               (case py_str repr film_id of
                  Inl e \<Rightarrow> Inl e
                | Inr s \<Rightarrow> Inr (False, s, Msg_latest_release title year))))"
| "films_loop repr title year films (film # rest) idx last_release_year last_released_film_idx =
     (case getitem film ''year'' of
        Inl e \<Rightarrow> Inl e
      | Inr v \<Rightarrow>
          (case year_field v of
             Inl e \<Rightarrow> Inl e
           | Inr film_year \<Rightarrow>
               (let newer = str_gt film_year last_release_year;
                    last_release_year' = (if newer then film_year else last_release_year);
                    last_released_film_idx' = (if newer then idx else last_released_film_idx)
                in if film_year = year then
                     (case getitem film ''nameRu'' of
                        Inl e \<Rightarrow> Inl e
                      | Inr name \<Rightarrow>
                          (case getitem film ''filmId'' of
                             Inl e \<Rightarrow> Inl e
                           | Inr film_id \<Rightarrow>
                               (case py_str repr film_id of
                                  Inl e \<Rightarrow> Inl e
                                | Inr s \<Rightarrow> Inr (True, s, Msg_year_found name year))))
                   else films_loop repr title year films rest (Suc idx)
                          last_release_year' last_released_film_idx')))"

text \<open>
  \<^verbatim>\<open>films = request_data['films']\<close> onwards. \<^verbatim>\<open>len(films)\<close> and the loop
  accept a list, a string and a dictionary; iterating over a non-empty string or
  dictionary gives strings, on which \<^verbatim>\<open>film['year']\<close> raises
  \<^verbatim>\<open>TypeError\<close>.
\<close>

definition resolve_films ::
  "(pyval \<Rightarrow> error + string) \<Rightarrow> string \<Rightarrow> string \<Rightarrow> pyval \<Rightarrow> error + (bool \<times> string \<times> msg)" where
  "resolve_films repr title year films =
     (case films of
        PyList fs \<Rightarrow>
          if length fs = 0 then Inl NoFilmsError
          else films_loop repr title year fs fs 0 ''0000'' 0
      | PyStr s \<Rightarrow> if length s = 0 then Inl NoFilmsError else Inl TypeError
      | PyDict d \<Rightarrow> if length d = 0 then Inl NoFilmsError else Inl TypeError
      | _ \<Rightarrow> Inl TypeError)"

text \<open>The part of \<^verbatim>\<open>get_film_id\<close> after the status check: the body.\<close>

definition search_body ::
  "(pyval \<Rightarrow> error + string) \<Rightarrow> string \<Rightarrow> string \<Rightarrow> pyval option
     \<Rightarrow> error + (bool \<times> string \<times> msg) option" where
  "search_body repr title year body =
     (case body of
        None \<Rightarrow> Inl JSONDecodeError
      | Some request_data \<Rightarrow>
          (case request_data of
             PyDict d \<Rightarrow>
               (case map_of d (PyStr ''films'') of
                  None \<Rightarrow> Inl APIAnswerWrongDataError
                | Some films \<Rightarrow> map_sum id Some (resolve_films repr title year films))
           | _ \<Rightarrow> Inl TypeError))"

text \<open>
  \<^verbatim>\<open>get_film_id(title, year)\<close>; both arguments are strings, so
  \<^verbatim>\<open>validate_types\<close> passes. \<open>Inr None\<close> is the \<^verbatim>\<open>None\<close> returned on
  status 404.
\<close>

definition get_film_id :: "env \<Rightarrow> string \<Rightarrow> string \<Rightarrow> error + (bool \<times> string \<times> msg) option" where
  "get_film_id w title year =
     (case search_api w title of
        Transport_failure \<Rightarrow> Inl APIConnectionError
      | Response status_code body \<Rightarrow>
          (case check_request_status status_code of
             Inl e \<Rightarrow> Inl e
           | Inr u \<Rightarrow>
               if status_code = 404 then Inr None
               else search_body (py_repr w) title year body))"

subsection \<open>\<^verbatim>\<open>get_raw_film_info\<close>\<close>

definition film_body :: "pyval option \<Rightarrow> error + pyval option" where
  "film_body body =
     (case body of
        None \<Rightarrow> Inl JSONDecodeError
      | Some raw_film_info \<Rightarrow>
          (case raw_film_info of PyDict d \<Rightarrow> Inr (Some raw_film_info) | _ \<Rightarrow> Inl TypeError))"

definition get_raw_film_info :: "env \<Rightarrow> string \<Rightarrow> error + pyval option" where
  "get_raw_film_info w film_id =
     (case film_api w film_id of
        Transport_failure \<Rightarrow> Inl APIConnectionError
      | Response status_code body \<Rightarrow>
          (case check_request_status status_code of
             Inl e \<Rightarrow> Inl e
           | Inr u \<Rightarrow> if status_code = 404 then Inr None else film_body body))"

subsection \<open>\<^verbatim>\<open>get_raw_staff_info\<close>\<close>

text \<open>
  The filter loop: an actor is kept while fewer than \<^verbatim>\<open>max_actors\<close> are kept,
  every director is kept. \<^verbatim>\<open>person['professionKey']\<close> is read for each person.
\<close>

fun staff_loop :: "int \<Rightarrow> pyval list \<Rightarrow> pyval list \<Rightarrow> pyval list \<Rightarrow> error + pyval" where
  "staff_loop max_actors [] actors directors =
     Inr (PyDict [(PyStr ''ACTORS'', PyList actors), (PyStr ''DIRECTORS'', PyList directors)])"
| "staff_loop max_actors (person # rest) actors directors =
     (case getitem person ''professionKey'' of
        Inl e \<Rightarrow> Inl e
      | Inr key \<Rightarrow>
          staff_loop max_actors rest
            (if key = PyStr ''ACTOR'' \<and> int (length actors) < max_actors
             then actors @ [person] else actors)
            (if key = PyStr ''DIRECTOR'' then directors @ [person] else directors))"

definition staff_body :: "int \<Rightarrow> pyval option \<Rightarrow> error + pyval option" where
  "staff_body max_actors body =
     (case body of
        None \<Rightarrow> Inl JSONDecodeError
      | Some raw_film_staff_info \<Rightarrow>
          (case raw_film_staff_info of
             PyList persons \<Rightarrow> map_sum id Some (staff_loop max_actors persons [] [])
           | _ \<Rightarrow> Inl TypeError))"

definition get_raw_staff_info :: "env \<Rightarrow> string \<Rightarrow> int \<Rightarrow> error + pyval option" where
  "get_raw_staff_info w film_id max_actors =
     (case staff_api w film_id of
        Transport_failure \<Rightarrow> Inl APIConnectionError
      | Response status_code body \<Rightarrow>
          (case check_request_status status_code of
             Inl e \<Rightarrow> Inl e
           | Inr u \<Rightarrow> if status_code = 404 then Inr None else staff_body max_actors body))"

section \<open>The search key\<close>

text \<open>
  \<^verbatim>\<open>re.search(YEAR_STAMP, raw_file_name)\<close> with
  \<^verbatim>\<open>YEAR_STAMP = r'(19|20)\d{2}'\<close>: the leftmost position where the pattern
  matches. \<open>year_search\<close> gives the text before the match and the match.
\<close>

definition year_stamp_here :: "string \<Rightarrow> bool" where
  "year_stamp_here s =
     (case s of
        a # b # c # d # r \<Rightarrow>
          ([a, b] = ''19'' \<or> [a, b] = ''20'') \<and> ascii_digit c \<and> ascii_digit d
      | _ \<Rightarrow> False)"

fun year_search :: "string \<Rightarrow> (string \<times> string) option" where
  "year_search [] = None"
| "year_search (c # cs) =
     (if year_stamp_here (c # cs) then Some ([], take 4 (c # cs))
      else (case year_search cs of None \<Rightarrow> None | Some (p, y) \<Rightarrow> Some (c # p, y)))"

text \<open>
  \<^verbatim>\<open>re.sub(SPLITTERS, ' ', raw_title)\<close> with \<^verbatim>\<open>SPLITTERS = r'[_.()]'\<close>,
  and \<^verbatim>\<open>re.sub(r'\s+', ' ', title)\<close>, which puts one space for each maximal
  run of white space.
\<close>

definition is_splitter :: "char \<Rightarrow> bool" where
  "is_splitter c = (c = CHR ''_'' \<or> c = CHR ''.'' \<or> c = CHR ''('' \<or> c = CHR '')'')"

definition sub_splitters :: "string \<Rightarrow> string" where
  "sub_splitters s = map (\<lambda>c. if is_splitter c then CHR '' '' else c) s"

function collapse_spaces :: "string \<Rightarrow> string" where
  "collapse_spaces [] = []"
| "collapse_spaces (c # cs) =
     (if py_isspace c then CHR '' '' # collapse_spaces (dropWhile py_isspace cs)
      else c # collapse_spaces cs)"
  by pat_completeness auto
termination
  by (relation "measure length") (auto simp: length_dropWhile_le less_Suc_eq_le)

text \<open>
  \<^verbatim>\<open>get_film_name_year(raw_file_name)\<close>; the argument is a string, so
  \<^verbatim>\<open>validate_types\<close> passes.
\<close>

definition get_film_name_year :: "string \<Rightarrow> error + (string \<times> string)" where
  "get_film_name_year raw_file_name =
     (case year_search raw_file_name of
        Some (raw_title, year) \<Rightarrow> Inr (strip (collapse_spaces (sub_splitters raw_title)), year)
      | None \<Rightarrow> Inl NoYearError)"

fun is_nfo_file_exists :: "string \<Rightarrow> string list \<Rightarrow> bool" where
  "is_nfo_file_exists video_file_name [] = False"
| "is_nfo_file_exists video_file_name (file_name # files) =
     (if file_name = video_file_name @ ''.nfo'' then True
      else is_nfo_file_exists video_file_name files)"

section \<open>The record normalizer\<close>

subsection \<open>\<^verbatim>\<open>get_clean_film_info\<close>\<close>

text \<open>\<^verbatim>\<open>FILM_INFO_STRUCTURE\<close> of \<^verbatim>\<open>config/settings.py\<close>, in its order.\<close>

definition FILM_INFO_STRUCTURE :: "(string \<times> string) list" where
  "FILM_INFO_STRUCTURE =
     [(''title'', ''nameRu''),
      (''originaltitle'', ''nameOriginal''),
      (''year'', ''year''),
      (''plot'', ''description''),
      (''runtime'', ''filmLength''),
      (''rating'', ''ratingKinopoisk''),
      (''votes'', ''ratingKinopoiskVoteCount''),
      (''mpaa'', ''ratingMpaa''),
      (''certification'', ''ratingMpaa''),
      (''genres'', ''genres''),
      (''countries'', ''countries''),
      (''kinopoisk_id'', ''kinopoiskId''),
      (''poster'', ''posterUrl''),
      (''fanart'', ''coverUrl'')]"

text \<open>
  The loop over the table, with the three variables \<^verbatim>\<open>clean_film_info\<close>,
  \<^verbatim>\<open>posters_urls\<close> and \<^verbatim>\<open>empty_fields\<close>. Around
  \<^verbatim>\<open>int(value) * 60\<close> only \<^verbatim>\<open>TypeError\<close> and \<^verbatim>\<open>ValueError\<close>
  are caught.
\<close>

fun film_fields_loop ::
  "(string \<times> string) list \<Rightarrow> (pyval \<times> pyval) list
     \<Rightarrow> (pyval \<times> pyval) list \<Rightarrow> (pyval \<times> pyval) list \<Rightarrow> string list
     \<Rightarrow> error + ((pyval \<times> pyval) list \<times> (pyval \<times> pyval) list \<times> string list)" where
  "film_fields_loop [] raw clean_film_info posters_urls empty_fields =
     Inr (clean_film_info, posters_urls, empty_fields)"
| "film_fields_loop ((key, api_field) # rest) raw clean_film_info posters_urls empty_fields =
     (let value = dict_get raw api_field in
      if truthy value then
        if key = ''runtime'' then
          (case py_int value of
             Inr n \<Rightarrow>
               film_fields_loop rest raw (dict_set clean_film_info (PyStr key) (PyInt (n * 60)))
                 posters_urls empty_fields
           | Inl e \<Rightarrow>
               if e = TypeError \<or> e = ValueError then
                 film_fields_loop rest raw (dict_set clean_film_info (PyStr key) PyNone)
                   posters_urls (empty_fields @ [key])
               else Inl e)
        else if key = ''poster'' \<or> key = ''fanart'' then
          film_fields_loop rest raw clean_film_info (dict_set posters_urls (PyStr key) value)
            empty_fields
        else
          film_fields_loop rest raw (dict_set clean_film_info (PyStr key) value)
            posters_urls empty_fields
      else film_fields_loop rest raw clean_film_info posters_urls (empty_fields @ [key]))"

text \<open>
  The function up to its last two lines, with \<^verbatim>\<open>empty_fields\<close> still a list,
  and the function itself, which joins the list.
\<close>

definition film_fields ::
  "pyval \<Rightarrow> error + ((pyval \<times> pyval) list \<times> (pyval \<times> pyval) list \<times> string list)" where
  "film_fields raw_film_info =
     (case raw_film_info of
        PyDict raw \<Rightarrow>
          film_fields_loop FILM_INFO_STRUCTURE raw []
            [(PyStr ''poster'', PyNone), (PyStr ''cover'', PyNone)] []
      | _ \<Rightarrow> Inl TypeError)"

definition get_clean_film_info :: "pyval \<Rightarrow> error + (pyval \<times> pyval \<times> string)" where
  "get_clean_film_info raw_film_info =
     (case film_fields raw_film_info of
        Inl e \<Rightarrow> Inl e
      | Inr (clean_film_info, posters_urls, empty_fields) \<Rightarrow>
          Inr (PyDict clean_film_info, PyDict posters_urls, join '', '' empty_fields))"

subsection \<open>\<^verbatim>\<open>get_clean_staff_info\<close>\<close>

text \<open>
  One person. \<^verbatim>\<open>person.get\<close> needs a dictionary (anything else has no such
  method); \<^verbatim>\<open>person['nameRu']\<close>, \<^verbatim>\<open>person['nameEn']\<close> and
  \<^verbatim>\<open>person['posterUrl']\<close> are read only when \<^verbatim>\<open>get\<close> gave a true
  value, and give that value. In the \<^verbatim>\<open>append\<close> line the list
  \<^verbatim>\<open>clean_staff_info[profession]\<close> is looked up before
  \<^verbatim>\<open>person['description']\<close>.
\<close>

definition person_step ::
  "pyval \<Rightarrow> pyval \<Rightarrow> (pyval \<times> pyval) list \<times> (pyval \<times> pyval) list \<times> pyval list
     \<Rightarrow> error + ((pyval \<times> pyval) list \<times> (pyval \<times> pyval) list \<times> pyval list)" where
  "person_step profession person st =
     (case st of (clean_staff_info, staff_posters, empty_posters) \<Rightarrow>
      (case person of
         PyDict p \<Rightarrow>
           (let person_name =
                  (if truthy (dict_get p ''nameRu'') then dict_get p ''nameRu''
                   else if truthy (dict_get p ''nameEn'') then dict_get p ''nameEn''
                   else PyNone);
                appended =
                  (if truthy person_name then
                     (case map_of clean_staff_info profession of
                        None \<Rightarrow> Inl (KeyError profession)
                      | Some entry \<Rightarrow>
                          (case getitem person ''description'' of
                             Inl e \<Rightarrow> Inl e
                           | Inr role \<Rightarrow>
                               (case entry of
                                  PyList xs \<Rightarrow>
                                    Inr (dict_set clean_staff_info profession
                                          (PyList (xs @ [PyDict [(PyStr ''name'', person_name),
                                                                (PyStr ''role'', role)]])))
                                | _ \<Rightarrow> Inl AttributeError)))
                   else Inr clean_staff_info)
            in case appended of
                 Inl e \<Rightarrow> Inl e
               | Inr clean' \<Rightarrow>
                   if truthy (dict_get p ''posterUrl'') then
                     if hashable person_name
                     then Inr (clean', dict_set staff_posters person_name (dict_get p ''posterUrl''),
                               empty_posters)
                     else Inl TypeError
                   else Inr (clean', staff_posters, empty_posters @ [person_name]))
       | _ \<Rightarrow> Inl AttributeError))"

fun persons_loop ::
  "pyval \<Rightarrow> pyval list \<Rightarrow> (pyval \<times> pyval) list \<times> (pyval \<times> pyval) list \<times> pyval list
     \<Rightarrow> error + ((pyval \<times> pyval) list \<times> (pyval \<times> pyval) list \<times> pyval list)" where
  "persons_loop profession [] st = Inr st"
| "persons_loop profession (person # rest) st =
     (case person_step profession person st of
        Inl e \<Rightarrow> Inl e
      | Inr st' \<Rightarrow> persons_loop profession rest st')"

fun professions_loop ::
  "(pyval \<times> pyval) list \<Rightarrow> (pyval \<times> pyval) list \<times> (pyval \<times> pyval) list \<times> pyval list
     \<Rightarrow> error + ((pyval \<times> pyval) list \<times> (pyval \<times> pyval) list \<times> pyval list)" where
  "professions_loop [] st = Inr st"
| "professions_loop ((profession, persons) # rest) st =
     (case py_iter persons of
        Inl e \<Rightarrow> Inl e
      | Inr ps \<Rightarrow>
          (case persons_loop profession ps st of
             Inl e \<Rightarrow> Inl e
           | Inr st' \<Rightarrow> professions_loop rest st'))"

text \<open>\<^verbatim>\<open>', '.join(empty_posters)\<close>: every item must be a string.\<close>

fun the_str :: "pyval \<Rightarrow> string option" where
  "the_str (PyStr s) = Some s"
| "the_str v = None"

definition join_values :: "string \<Rightarrow> pyval list \<Rightarrow> error + string" where
  "join_values sep vs =
     (if list_all (\<lambda>v. the_str v \<noteq> None) vs
      then Inr (join sep (map (\<lambda>v. case the_str v of Some s \<Rightarrow> s | None \<Rightarrow> []) vs))
      else Inl TypeError)"

definition get_clean_staff_info :: "pyval \<Rightarrow> error + (pyval \<times> pyval \<times> string)" where
  "get_clean_staff_info raw_staff_info =
     (case raw_staff_info of
        PyDict d \<Rightarrow>
          (case professions_loop d
                  ([(PyStr ''ACTORS'', PyList []), (PyStr ''DIRECTORS'', PyList [])], [], []) of
             Inl e \<Rightarrow> Inl e
           | Inr (clean_staff_info, staff_posters, empty_posters) \<Rightarrow>
               (case join_values '', '' empty_posters of
                  Inl e \<Rightarrow> Inl e
                | Inr empty_posters_str \<Rightarrow>
                    Inr (PyDict clean_staff_info, PyDict staff_posters, empty_posters_str)))
      | _ \<Rightarrow> Inl TypeError)"

section \<open>The sidecar writer\<close>

text \<open>What the program does to the file system, in order.\<close>

datatype effect = Make_dirs string | Write_file string string

text \<open>
  One element per entry of a genre or country list:
  \<^verbatim>\<open>SubElement(root, 'genre').text = str(genre['genre'])\<close>.
\<close>

fun sub_elements :: "(pyval \<Rightarrow> error + string) \<Rightarrow> string \<Rightarrow> pyval list \<Rightarrow> error + xml list" where
  "sub_elements repr name [] = Inr []"
| "sub_elements repr name (entry # rest) =
     (case getitem entry name of
        Inl e \<Rightarrow> Inl e
      | Inr v \<Rightarrow>
          (case py_str repr v of
             Inl e \<Rightarrow> Inl e
           | Inr s \<Rightarrow>
               (case sub_elements repr name rest of
                  Inl e \<Rightarrow> Inl e
                | Inr xs \<Rightarrow> Inr (Element (PyStr name) (PyStr s) [] # xs))))"

text \<open>The loop over \<^verbatim>\<open>clean_film_info.items()\<close>.\<close>

fun film_elements :: "(pyval \<Rightarrow> error + string) \<Rightarrow> (pyval \<times> pyval) list \<Rightarrow> error + xml list" where
  "film_elements repr [] = Inr []"
| "film_elements repr ((tag, tag_value) # rest) =
     (case (if truthy tag_value then
              if tag = PyStr ''genres'' then
                (case py_iter tag_value of
                   Inl e \<Rightarrow> Inl e
                 | Inr entries \<Rightarrow> sub_elements repr ''genre'' entries)
              else if tag = PyStr ''countries'' then
                (case py_iter tag_value of
                   Inl e \<Rightarrow> Inl e
                 | Inr entries \<Rightarrow> sub_elements repr ''country'' entries)
              else
                (case py_str repr tag_value of
                   Inl e \<Rightarrow> Inl e
                 | Inr s \<Rightarrow> Inr [Element tag (PyStr s) []])
            else Inr []) of
        Inl e \<Rightarrow> Inl e
      | Inr xs \<Rightarrow>
          (case film_elements repr rest of
             Inl e \<Rightarrow> Inl e
           | Inr ys \<Rightarrow> Inr (xs @ ys)))"

text \<open>The two loops over \<^verbatim>\<open>enumerate(persons)\<close>.\<close>

fun actor_elements :: "nat \<Rightarrow> pyval list \<Rightarrow> error + xml list" where
  "actor_elements idx [] = Inr []"
| "actor_elements idx (person # rest) =
     (case py_get person ''name'' of
        Inl e \<Rightarrow> Inl e
      | Inr name \<Rightarrow>
          (case py_get person ''role'' of
             Inl e \<Rightarrow> Inl e
           | Inr role \<Rightarrow>
               (case str_int (int idx) of
                  Inl e \<Rightarrow> Inl e
                | Inr order \<Rightarrow>
                    (case actor_elements (Suc idx) rest of
                       Inl e \<Rightarrow> Inl e
                     | Inr xs \<Rightarrow>
                         Inr (Element (PyStr ''actor'') PyNone
                                [Element (PyStr ''name'') name [],
                                 Element (PyStr ''role'') role [],
                                 Element (PyStr ''order'') (PyStr order) []] # xs)))))"

fun director_elements :: "pyval list \<Rightarrow> error + xml list" where
  "director_elements [] = Inr []"
| "director_elements (person # rest) =
     (case py_get person ''name'' of
        Inl e \<Rightarrow> Inl e
      | Inr name \<Rightarrow>
          (case director_elements rest of
             Inl e \<Rightarrow> Inl e
           | Inr xs \<Rightarrow> Inr (Element (PyStr ''director'') name [] # xs)))"

text \<open>The loop over \<^verbatim>\<open>clean_staff_info.items()\<close>.\<close>

fun staff_elements :: "(pyval \<times> pyval) list \<Rightarrow> error + xml list" where
  "staff_elements [] = Inr []"
| "staff_elements ((profession, persons) # rest) =
     (case (if profession = PyStr ''ACTORS'' then
              (case py_iter persons of Inl e \<Rightarrow> Inl e | Inr ps \<Rightarrow> actor_elements 0 ps)
            else if profession = PyStr ''DIRECTORS'' then
              (case py_iter persons of Inl e \<Rightarrow> Inl e | Inr ps \<Rightarrow> director_elements ps)
            else Inr []) of
        Inl e \<Rightarrow> Inl e
      | Inr xs \<Rightarrow>
          (case staff_elements rest of
             Inl e \<Rightarrow> Inl e
           | Inr ys \<Rightarrow> Inr (xs @ ys)))"

text \<open>
  The body of the \<^verbatim>\<open>try\<close> block of \<^verbatim>\<open>create_nfo\<close>:
  \<^verbatim>\<open>validate_types\<close>, the tree, its text, the write. It gives the exception
  raised, or the file written.
\<close>

definition create_nfo_body :: "env \<Rightarrow> pyval \<Rightarrow> pyval \<Rightarrow> pyval \<Rightarrow> pyval \<Rightarrow> error + effect" where
  "create_nfo_body w clean_film_info clean_staff_info path raw_file_name =
     (case (clean_film_info, clean_staff_info, path, raw_file_name) of
        (PyDict film, PyDict staff, PyStr p, PyStr name) \<Rightarrow>
          (let nfo_path = path_join p (name @ ''.nfo'') in
           case film_elements (py_repr w) film of
             Inl e \<Rightarrow> Inl e
           | Inr xs \<Rightarrow>
               (case staff_elements staff of
                  Inl e \<Rightarrow> Inl e
                | Inr ys \<Rightarrow>
                    (case render w (Element (PyStr ''movie'') PyNone (xs @ ys)) of
                       Inl e \<Rightarrow> Inl e
                     | Inr final_xml \<Rightarrow>
                         (case write_file w nfo_path of
                            Some e \<Rightarrow> Inl e
                          | None \<Rightarrow> Inr (Write_file nfo_path final_xml)))))
      | _ \<Rightarrow> Inl TypeError)"

text \<open>
  \<^verbatim>\<open>create_nfo\<close>: the body under \<^verbatim>\<open>try\<close>, and
  \<^verbatim>\<open>except Exception\<close> turning what it raises into the pair
  \<^verbatim>\<open>(False, message)\<close>.
\<close>

definition create_nfo :: "env \<Rightarrow> pyval \<Rightarrow> pyval \<Rightarrow> pyval \<Rightarrow> pyval \<Rightarrow> (bool \<times> msg) \<times> effect list" where
  "create_nfo w clean_film_info clean_staff_info path raw_file_name =
     (case create_nfo_body w clean_film_info clean_staff_info path raw_file_name of
        Inr written \<Rightarrow> ((True, Msg_nfo_created), [written])
      | Inl e \<Rightarrow> ((False, Msg_nfo_error e), []))"

section \<open>The artwork fetcher\<close>

text \<open>
  The loop over \<^verbatim>\<open>posters_urls.items()\<close>: for a true value the path is built
  from the key, the picture is fetched, then the file is written. Each loop gives the
  exception raised, if any, with the effects up to it.
\<close>

fun posters_loop ::
  "env \<Rightarrow> string \<Rightarrow> string \<Rightarrow> (pyval \<times> pyval) list \<Rightarrow> error option \<times> effect list" where
  "posters_loop w root raw_file_name [] = (None, [])"
| "posters_loop w root raw_file_name ((key, value) # rest) =
     (if truthy value then
        (case py_str (py_repr w) key of
           Inl e \<Rightarrow> (Some e, [])
         | Inr k \<Rightarrow>
             (let file_root = path_join root (raw_file_name @ ''-'' @ k @ ''.jpg'') in
              case fetch w value of
                Inl e \<Rightarrow> (Some e, [])
              | Inr content \<Rightarrow>
                  (case write_file w file_root of
                     Some e \<Rightarrow> (Some e, [])
                   | None \<Rightarrow>
                       (case posters_loop w root raw_file_name rest of
                          (r, effs) \<Rightarrow> (r, Write_file file_root content # effs)))))
      else posters_loop w root raw_file_name rest)"

text \<open>
  The loop over \<^verbatim>\<open>staff_posters.items()\<close>. \<^verbatim>\<open>re.sub(' ', '_', name)\<close>
  needs a string.
\<close>

definition underscores :: "string \<Rightarrow> string" where
  "underscores name = map (\<lambda>c. if c = CHR '' '' then CHR ''_'' else c) name"

fun staff_posters_loop ::
  "env \<Rightarrow> string \<Rightarrow> (pyval \<times> pyval) list \<Rightarrow> error option \<times> effect list" where
  "staff_posters_loop w root [] = (None, [])"
| "staff_posters_loop w root ((name, poster_url) # rest) =
     (case name of
        PyStr n \<Rightarrow>
          (let actors_dir = path_join root ''.actors'' in
           case makedirs w actors_dir of
             Some e \<Rightarrow> (Some e, [])
           | None \<Rightarrow>
               (let poster_root = path_join actors_dir (underscores n @ ''.jpg'') in
                case fetch w poster_url of
                  Inl e \<Rightarrow> (Some e, [Make_dirs actors_dir])
                | Inr content \<Rightarrow>
                    (case write_file w poster_root of
                       Some e \<Rightarrow> (Some e, [Make_dirs actors_dir])
                     | None \<Rightarrow>
                         (case staff_posters_loop w root rest of
                            (r, effs) \<Rightarrow>
                              (r, Make_dirs actors_dir # Write_file poster_root content # effs)))))
      | _ \<Rightarrow> (Some TypeError, []))"

text \<open>The body of the \<^verbatim>\<open>try\<close> block of \<^verbatim>\<open>create_posters\<close>.\<close>

definition create_posters_body ::
  "env \<Rightarrow> pyval \<Rightarrow> pyval \<Rightarrow> pyval \<Rightarrow> pyval \<Rightarrow> error option \<times> effect list" where
  "create_posters_body w posters_urls staff_posters root raw_file_name =
     (case (posters_urls, staff_posters, root, raw_file_name) of
        (PyDict posters, PyDict staff, PyStr r, PyStr name) \<Rightarrow>
          (case posters_loop w r name posters of
             (Some e, effs) \<Rightarrow> (Some e, effs)
           | (None, effs) \<Rightarrow>
               (case staff_posters_loop w r staff of
                  (res, effs') \<Rightarrow> (res, effs @ effs')))
      | _ \<Rightarrow> (Some TypeError, []))"

definition create_posters ::
  "env \<Rightarrow> pyval \<Rightarrow> pyval \<Rightarrow> pyval \<Rightarrow> pyval \<Rightarrow> (bool \<times> msg) \<times> effect list" where
  "create_posters w posters_urls staff_posters root raw_file_name =
     (case create_posters_body w posters_urls staff_posters root raw_file_name of
        (None, effs) \<Rightarrow> ((True, Msg_posters_saved), effs)
      | (Some e, effs) \<Rightarrow> ((False, Msg_posters_error e), effs))"

section \<open>The folder pipeline\<close>

definition MAX_ACTORS :: int where
  "MAX_ACTORS = 10"

definition VIDEO_EXT :: "string list" where
  "VIDEO_EXT = [''.mp4'', ''.mkv'', ''.avi'', ''.mov'']"

text \<open>
  The body of the loop of \<^verbatim>\<open>process_folder\<close> for one file that has a video
  extension and no sidecar: what it adds to \<^verbatim>\<open>message\<close>, or the exception it
  raises, with the effects on the file system. Nothing here catches an exception.
\<close>

definition process_file :: "env \<Rightarrow> string \<Rightarrow> string \<Rightarrow> (error + msg list) \<times> effect list" where
  "process_file w root raw_file_name =
     (case get_film_name_year raw_file_name of
        Inl e \<Rightarrow> (Inl e, [])
      | Inr (title, year) \<Rightarrow>
     (case get_film_id w title year of
        Inl e \<Rightarrow> (Inl e, [])
      | Inr None \<Rightarrow> (Inl NotFoundError, [])
      | Inr (Some (is_ok_film_id, film_id, msg_id)) \<Rightarrow>
     (case get_raw_film_info w film_id of
        Inl e \<Rightarrow> (Inl e, [])
      | Inr None \<Rightarrow> (Inl NotFoundError, [])
      | Inr (Some raw_film_info) \<Rightarrow>
     (case get_raw_staff_info w film_id MAX_ACTORS of
        Inl e \<Rightarrow> (Inl e, [])
      | Inr None \<Rightarrow> (Inl NotFoundError, [])
      | Inr (Some raw_staff_info) \<Rightarrow>
     (case get_clean_film_info raw_film_info of
        Inl e \<Rightarrow> (Inl e, [])
      | Inr (clean_film_info, posters_urls, empty_fields) \<Rightarrow>
     (case getitem clean_film_info ''title'' of
        Inl e \<Rightarrow> (Inl e, [])
      | Inr film_title \<Rightarrow>
     (case getitem clean_film_info ''year'' of
        Inl e \<Rightarrow> (Inl e, [])
      | Inr film_year \<Rightarrow>
     (case get_clean_staff_info raw_staff_info of
        Inl e \<Rightarrow> (Inl e, [])
      | Inr (clean_staff_info, staff_posters, empty_posters) \<Rightarrow>
     (case create_nfo w clean_film_info clean_staff_info (PyStr root) (PyStr raw_file_name) of
        ((is_ok_nfo, msg_nfo), effs_nfo) \<Rightarrow>
     (case create_posters w posters_urls staff_posters (PyStr root) (PyStr raw_file_name) of
        ((is_ok, msg_posters), effs_posters) \<Rightarrow>
          (Inr ([Msg_summary film_title film_year, msg_nfo, msg_posters] @
                (if \<not> is_ok_film_id then [msg_id] else [])),
           effs_nfo @ effs_posters)))))))))))"

text \<open>
  The loop of \<^verbatim>\<open>process_folder\<close> over \<^verbatim>\<open>files\<close>, with the files still
  to visit, \<^verbatim>\<open>files_processed\<close> and \<^verbatim>\<open>message\<close>. An exception of
  the body leaves the loop and the function.
\<close>

fun files_loop ::
  "env \<Rightarrow> string \<Rightarrow> string list \<Rightarrow> string list \<Rightarrow> nat \<Rightarrow> msg list
     \<Rightarrow> (error + nat \<times> msg list) \<times> effect list" where
  "files_loop w root files [] files_processed message = (Inr (files_processed, message), [])"
| "files_loop w root files (file # rest) files_processed message =
     (case splitext file of
        (raw_file_name, ext) \<Rightarrow>
          if ext \<in> set VIDEO_EXT \<and> \<not> is_nfo_file_exists raw_file_name files then
            (case process_file w root raw_file_name of
               (Inl e, effs) \<Rightarrow> (Inl e, effs)
             | (Inr lines, effs) \<Rightarrow>
                 (case files_loop w root files rest (Suc files_processed) (message @ lines) of
                    (r, effs') \<Rightarrow> (r, effs @ effs')))
          else files_loop w root files rest files_processed message)"

definition process_folder ::
  "env \<Rightarrow> string \<Rightarrow> string list \<Rightarrow> (error + nat \<times> msg list) \<times> effect list" where
  "process_folder w root files = files_loop w root files files 0 []"

text \<open>
  One round of the \<^verbatim>\<open>while True\<close> loop of \<^verbatim>\<open>main\<close>, for the folders
  \<^verbatim>\<open>os.walk\<close> yields (each with its files) and with the configuration present,
  so that \<^verbatim>\<open>check_vars\<close> passes: the folders are processed in turn inside one
  \<^verbatim>\<open>try\<close>, and \<^verbatim>\<open>except Exception\<close> reports what was raised.
\<close>

fun walk_loop ::
  "env \<Rightarrow> (string \<times> string list) list \<Rightarrow> nat \<Rightarrow> msg list list
     \<Rightarrow> (error + nat \<times> msg list list) \<times> effect list" where
  "walk_loop w [] new_files bot_message = (Inr (new_files, bot_message), [])"
| "walk_loop w ((root, files) # rest) new_files bot_message =
     (case process_folder w root files of
        (Inl e, effs) \<Rightarrow> (Inl e, effs)
      | (Inr (files_processed, message), effs) \<Rightarrow>
          (case walk_loop w rest (new_files + files_processed)
                  (if message \<noteq> [] then bot_message @ [message] else bot_message) of
             (r, effs') \<Rightarrow> (r, effs @ effs')))"

datatype report = Report_failure error | Report_new_films nat "msg list list" | Report_nothing

definition main_round :: "env \<Rightarrow> (string \<times> string list) list \<Rightarrow> report \<times> effect list" where
  "main_round w walk =
     (case walk_loop w walk 0 [] of
        (Inl e, effs) \<Rightarrow> (Report_failure e, effs)
      | (Inr (new_files, bot_message), effs) \<Rightarrow>
          (if 0 < new_files then Report_new_films new_files bot_message else Report_nothing, effs))"

section \<open>Candidates, as the specification speaks of them\<close>

text \<open>
  A candidate is a search result with a four-digit year, a name and an identifier that
  \<^verbatim>\<open>str\<close> can print. \<open>year_of\<close>, \<open>film_name\<close> and \<open>film_ident\<close>
  read its fields; \<open>year_number\<close> is the number its year denotes.
\<close>

definition year_of :: "pyval \<Rightarrow> string" where
  "year_of film = (case getitem film ''year'' of Inr (PyStr y) \<Rightarrow> y | _ \<Rightarrow> [])"

definition four_digits :: "string \<Rightarrow> bool" where
  "four_digits y = (length y = 4 \<and> list_all ascii_digit y)"



definition film_ident :: "(pyval \<Rightarrow> error + string) \<Rightarrow> pyval \<Rightarrow> string" where
  "film_ident repr film =
     (case getitem film ''filmId'' of
        Inl e \<Rightarrow> []
      | Inr v \<Rightarrow> (case py_str repr v of Inl e \<Rightarrow> [] | Inr s \<Rightarrow> s))"

definition film_name :: "pyval \<Rightarrow> pyval" where
  "film_name film = (case getitem film ''nameRu'' of Inl e \<Rightarrow> PyNone | Inr v \<Rightarrow> v)"

definition candidate :: "(pyval \<Rightarrow> error + string) \<Rightarrow> pyval \<Rightarrow> bool" where
  "candidate repr film =
     ((case getitem film ''year'' of Inr (PyStr y) \<Rightarrow> four_digits y | _ \<Rightarrow> False) \<and>
      (case getitem film ''nameRu'' of Inr v \<Rightarrow> True | Inl e \<Rightarrow> False) \<and>
      (case getitem film ''filmId'' of
         Inr v \<Rightarrow> (case py_str repr v of Inr s \<Rightarrow> True | Inl e \<Rightarrow> False)
       | Inl e \<Rightarrow> False))"






text \<open>
  A search result whose year passes the check of \<^verbatim>\<open>get_film_id\<close> and differs
  from the requested year, and one whose year is a string that fails the check.
\<close>

definition valid_other :: "string \<Rightarrow> pyval \<Rightarrow> bool" where
  "valid_other year film =
     (case getitem film ''year'' of
        Inr (PyStr y) \<Rightarrow> length y = 4 \<and> isdigit y \<and> y \<noteq> year
      | _ \<Rightarrow> False)"

definition malformed_year :: "pyval \<Rightarrow> bool" where
  "malformed_year film =
     (case getitem film ''year'' of
        Inr (PyStr y) \<Rightarrow> length y \<noteq> 4 \<or> \<not> isdigit y
      | _ \<Rightarrow> False)"




text \<open>
  What a run of the pipeline lets out: the exception it raises, if any, and the number
  of files it counts when it returns.
\<close>

definition raised :: "(error + 'a) \<times> effect list \<Rightarrow> error option" where
  "raised r = (case fst r of Inl e \<Rightarrow> Some e | Inr x \<Rightarrow> None)"

definition files_counted :: "(error + nat \<times> 'a) \<times> effect list \<Rightarrow> nat option" where
  "files_counted r = (case fst r of Inl e \<Rightarrow> None | Inr x \<Rightarrow> Some (fst x))"

section \<open>Concrete worlds\<close>


text \<open>
  A small catalog. The search answers four keywords: the two example scenarios of the
  specification, a list whose second entry has a malformed year, and a film whose detail
  record has no Russian name.
\<close>

definition search_hit :: "int \<Rightarrow> string \<Rightarrow> string \<Rightarrow> pyval" where
  "search_hit i name y = PyDict [(PyStr ''filmId'', PyInt i), (PyStr ''nameRu'', PyStr name), (PyStr ''year'', PyStr y)]"

definition demo_search :: "string \<Rightarrow> http_result" where
  "demo_search keyword =
     (if keyword = ''Inception'' then
        Response 200 (Some (PyDict [(PyStr ''films'',
          PyList [search_hit 1 ''Inception'' ''2009'', search_hit 2 ''Inception'' ''2010''])]))
      else if keyword = ''OldMovie'' then
        Response 200 (Some (PyDict [(PyStr ''films'',
          PyList [search_hit 5 ''OldMovie'' ''1999'', search_hit 6 ''OldMovie'' ''2005''])]))
      else if keyword = ''Solaris'' then
        Response 200 (Some (PyDict [(PyStr ''films'',
          PyList [search_hit 7 ''Solaris'' ''1972'', search_hit 8 ''Solaris'' ''n/a''])]))
      else if keyword = ''Stalker'' then
        Response 200 (Some (PyDict [(PyStr ''films'',
          PyList [search_hit 9 ''Stalker'' ''1979''])]))
      else Response 404 None)"

text \<open>
  A film record as the detail endpoint gives it, with some of the fields of the table.
\<close>

definition demo_film :: "(pyval \<times> pyval) list" where
  "demo_film =
     [(PyStr ''kinopoiskId'', PyInt 2),
      (PyStr ''nameRu'', PyStr ''Inception''),
      (PyStr ''year'', PyInt 2010),
      (PyStr ''filmLength'', PyInt 148),
      (PyStr ''posterUrl'', PyStr ''http://img/p2.jpg''),
      (PyStr ''coverUrl'', PyStr ''http://img/c2.jpg'')]"

definition demo_untitled :: "(pyval \<times> pyval) list" where
  "demo_untitled =
     [(PyStr ''kinopoiskId'', PyInt 9),
      (PyStr ''nameOriginal'', PyStr ''Stalker''),
      (PyStr ''year'', PyInt 1979)]"

definition demo_cast :: pyval where
  "demo_cast =
     PyList
       [PyDict [(PyStr ''professionKey'', PyStr ''ACTOR''),
                (PyStr ''nameRu'', PyStr ''Leonardo DiCaprio''),
                (PyStr ''description'', PyStr ''Cobb''),
                (PyStr ''posterUrl'', PyStr ''http://img/a1.jpg'')],
        PyDict [(PyStr ''professionKey'', PyStr ''DIRECTOR''),
                (PyStr ''nameEn'', PyStr ''Christopher Nolan''),
                (PyStr ''description'', PyNone)]]"

definition demo_film_api :: "string \<Rightarrow> http_result" where
  "demo_film_api film_id =
     (if film_id = ''2'' then Response 200 (Some (PyDict demo_film))
      else if film_id = ''9'' then Response 200 (Some (PyDict demo_untitled))
      else Response 404 None)"

definition demo_staff_api :: "string \<Rightarrow> http_result" where
  "demo_staff_api film_id =
     (if film_id = ''2'' \<or> film_id = ''9'' then Response 200 (Some demo_cast)
      else Response 404 None)"

text \<open>
  The world of the examples: every download gives the bytes named after its address,
  every tree is rendered as the same text, and the file system accepts every write.
\<close>

definition demo_fetch :: "pyval \<Rightarrow> error + string" where
  "demo_fetch url = (case url of PyStr u \<Rightarrow> Inr (''bytes of '' @ u) | _ \<Rightarrow> Inl RequestException)"

definition demo_env :: env where
  "demo_env =
     \<lparr>search_api = demo_search, film_api = demo_film_api,
      staff_api = demo_staff_api, py_repr = (\<lambda>v. Inl ValueError),
      fetch = demo_fetch, render = (\<lambda>x. Inr ''<movie/>''),
      makedirs = (\<lambda>p. None), write_file = (\<lambda>p. None)\<rparr>"

text \<open>
  What the pipeline computes for the film with identifier 2 on the way: the filtered
  staff, the document, the image addresses, the roster and the photo addresses.
\<close>

definition demo_roster :: pyval where
  "demo_roster =
     PyDict [(PyStr ''ACTORS'', PyList
                [PyDict [(PyStr ''professionKey'', PyStr ''ACTOR''),
                         (PyStr ''nameRu'', PyStr ''Leonardo DiCaprio''),
                         (PyStr ''description'', PyStr ''Cobb''),
                         (PyStr ''posterUrl'', PyStr ''http://img/a1.jpg'')]]),
             (PyStr ''DIRECTORS'', PyList
                [PyDict [(PyStr ''professionKey'', PyStr ''DIRECTOR''),
                         (PyStr ''nameEn'', PyStr ''Christopher Nolan''),
                         (PyStr ''description'', PyNone)]])]"

definition demo_document :: pyval where
  "demo_document =
     PyDict [(PyStr ''title'', PyStr ''Inception''), (PyStr ''year'', PyInt 2010),
             (PyStr ''runtime'', PyInt 8880), (PyStr ''kinopoisk_id'', PyInt 2)]"

definition demo_posters :: pyval where
  "demo_posters =
     PyDict [(PyStr ''poster'', PyStr ''http://img/p2.jpg''), (PyStr ''cover'', PyNone),
             (PyStr ''fanart'', PyStr ''http://img/c2.jpg'')]"

definition demo_clean_staff :: pyval where
  "demo_clean_staff =
     PyDict [(PyStr ''ACTORS'', PyList
                [PyDict [(PyStr ''name'', PyStr ''Leonardo DiCaprio''), (PyStr ''role'', PyStr ''Cobb'')]]),
             (PyStr ''DIRECTORS'', PyList
                [PyDict [(PyStr ''name'', PyStr ''Christopher Nolan''), (PyStr ''role'', PyNone)]])]"

definition demo_photos :: pyval where
  "demo_photos = PyDict [(PyStr ''Leonardo DiCaprio'', PyStr ''http://img/a1.jpg'')]"

text \<open>The same world with a file system that refuses every write.\<close>

definition read_only_env :: env where
  "read_only_env = demo_env\<lparr>fetch := demo_fetch, render := (\<lambda>x. Inr ''<movie/>''),
     makedirs := (\<lambda>p. None), write_file := (\<lambda>p. Some OSError)\<rparr>"

section \<open>Evaluation of decimal text\<close>

lemma digits10_small: "n < 10 \<Longrightarrow> digits10 n = [''0123456789'' ! n]"
  by (simp add: digits10.simps)

lemma digits10_large:
  "10 \<le> n \<Longrightarrow> digits10 n = digits10 (n div 10) @ [''0123456789'' ! (n mod 10)]"
  by (subst digits10.simps) simp

lemmas str_int_simps = str_int_def digits10_small digits10_large

section \<open>Status codes\<close>



section \<open>Candidate resolution\<close>









lemma four_digits_isdigit: "four_digits y \<Longrightarrow> isdigit y"
  by (auto simp: four_digits_def isdigit_def isdigit_char_def ascii_digit_def list_all_iff)

lemma four_digits_length: "four_digits y \<Longrightarrow> length y = 4"
  by (simp add: four_digits_def)


lemma candidateD:
  assumes "candidate repr film"
  shows "getitem film ''year'' = Inr (PyStr (year_of film))"
    and "four_digits (year_of film)"
    and "getitem film ''nameRu'' = Inr (film_name film)"
    and "\<exists>v. getitem film ''filmId'' = Inr v \<and> py_str repr v = Inr (film_ident repr film)"
  using assms
  by (auto simp: candidate_def year_of_def film_name_def film_ident_def
      split: sum.splits pyval.splits)

lemma year_field_four_digits: "four_digits y \<Longrightarrow> year_field (PyStr y) = Inr y"
  by (simp add: four_digits_isdigit four_digits_length)







lemma films_loop_skip:
  assumes "list_all (valid_other year) pre"
  shows "\<exists>lry' li'. films_loop repr title year films (pre @ rest) idx lry li =
           films_loop repr title year films rest (idx + length pre) lry' li'"
  using assms
proof (induction pre arbitrary: idx lry li)
  case Nil
  show ?case by auto
next
  case (Cons f pre)
  from Cons.prems have vf: "valid_other year f" and p: "list_all (valid_other year) pre"
    by simp_all
  from vf obtain y where y: "getitem f ''year'' = Inr (PyStr y)" "length y = 4" "isdigit y"
    "y \<noteq> year"
    by (auto simp: valid_other_def split: sum.splits pyval.splits)
  from Cons.IH [OF p, of "Suc idx"] y show ?case by (simp add: Let_def)
qed

text \<open>
  C2, as amended. The scan is one pass that returns at the first exact match. When every
  candidate before \<open>film\<close> has a well-formed year other than the requested one: if the
  year of \<open>film\<close> is a string that is not four digits, the resolution fails with
  \<^verbatim>\<open>APIAnswerWrongDataError\<close>; if \<open>film\<close> is a candidate with the requested
  year, it is returned, whatever comes after it in the list.
\<close>

theorem malformed_year_before_match:
  assumes "search_api w title = Response 200 (Some (PyDict d))"
    and "map_of d (PyStr ''films'') = Some (PyList (pre @ film # post))"
    and "list_all (valid_other year) pre"
  shows "(malformed_year film \<longrightarrow> get_film_id w title year = Inl APIAnswerWrongDataError) \<and>
         (candidate (py_repr w) film \<and> year_of film = year \<longrightarrow>
            get_film_id w title year =
              Inr (Some (True, film_ident (py_repr w) film, Msg_year_found (film_name film) year)))"
proof -
  let ?fs = "pre @ film # post"
  have g: "get_film_id w title year =
             map_sum id Some (films_loop (py_repr w) title year ?fs ?fs 0 ''0000'' 0)"
    using assms(1,2)
    by (simp add: get_film_id_def check_request_status_def search_body_def resolve_films_def)
  from films_loop_skip [OF assms(3), of "py_repr w" title ?fs "film # post" 0 "''0000''" 0]
  obtain lry li where s: "films_loop (py_repr w) title year ?fs ?fs 0 ''0000'' 0 =
      films_loop (py_repr w) title year ?fs (film # post) (length pre) lry li"
    by auto
  have a: "get_film_id w title year = Inl APIAnswerWrongDataError" if "malformed_year film"
    using that unfolding g s by (auto simp: malformed_year_def split: sum.splits pyval.splits)
  have b: "get_film_id w title year =
      Inr (Some (True, film_ident (py_repr w) film, Msg_year_found (film_name film) year))"
    if c: "candidate (py_repr w) film" and y: "year_of film = year"
  proof -
    note d = candidateD [OF c]
    from d(4) obtain v where v: "getitem film ''filmId'' = Inr v"
      "py_str (py_repr w) v = Inr (film_ident (py_repr w) film)" by blast
    from d v y show ?thesis unfolding g s
      by (simp add: four_digits_isdigit four_digits_length)
  qed
  from a b show ?thesis by blast
qed

theorem malformed_year_before_match_witness:
  "get_film_id demo_env ''Solaris'' ''1968'' = Inl APIAnswerWrongDataError"
proof -
  have v: "list_all (valid_other ''1968'') [search_hit 7 ''Solaris'' ''1972'']"
    by (simp add: valid_other_def search_hit_def isdigit_def isdigit_char_def)
  have m: "malformed_year (search_hit 8 ''Solaris'' ''n/a'')"
    by (simp add: malformed_year_def search_hit_def)
  from malformed_year_before_match [of demo_env "''Solaris''"
      "[(PyStr ''films'', PyList [search_hit 7 ''Solaris'' ''1972'', search_hit 8 ''Solaris'' ''n/a''])]"
      "[search_hit 7 ''Solaris'' ''1972'']" "search_hit 8 ''Solaris'' ''n/a''" "[]" "''1968''"] v m
  show ?thesis by (simp add: demo_env_def demo_search_def)
qed

text \<open>
  The claim as stated fails: the second record of this list has the year \<^verbatim>\<open>n/a\<close>,
  the first one matches the requested year, and the resolution succeeds.
\<close>

theorem malformed_year_after_match_counterexample:
  "malformed_year (search_hit 8 ''Solaris'' ''n/a'') \<and>
   get_film_id demo_env ''Solaris'' ''1972'' =
     Inr (Some (True, ''7'', Msg_year_found (PyStr ''Solaris'') ''1972''))"
proof -
  have d: "str_int 7 = Inr ''7''" by (simp add: str_int_simps)
  show ?thesis
    by (simp add: malformed_year_def search_hit_def get_film_id_def demo_env_def demo_search_def
        check_request_status_def search_body_def resolve_films_def isdigit_def isdigit_char_def d)
qed

section \<open>Film normalization\<close>

lemma map_of_dict_set:
  "map_of (dict_set d k v) k' = (if k' = k then Some v else map_of d k')"
  by (induction d k v rule: dict_set.induct) auto

lemma py_int_errors: "py_int v = Inl e \<Longrightarrow> e = TypeError \<or> e = ValueError \<or> e = OverflowError"
  by (cases v) (auto split: pyfloat.splits option.splits)

lemma film_fields_loop_frame:
  assumes "film_fields_loop t raw c p e = Inr (c', p', e')"
    and "k \<notin> fst ` set t"
  shows "map_of c' (PyStr k) = map_of c (PyStr k) \<and> (k \<in> set e' \<longleftrightarrow> k \<in> set e)"
  using assms
proof (induction t arbitrary: c p e)
  case Nil
  then show ?case by simp
next
  case (Cons a t)
  obtain key api where a: "a = (key, api)" by (cases a)
  from Cons.prems(2) a have kk: "key \<noteq> k" and kt: "k \<notin> fst ` set t" by auto
  from Cons.prems(1) a obtain c1 p1 e1 where
    r: "film_fields_loop t raw c1 p1 e1 = Inr (c', p', e')"
    and f: "map_of c1 (PyStr k) = map_of c (PyStr k)" "k \<in> set e1 \<longleftrightarrow> k \<in> set e"
    using kk
    by (auto simp: Let_def map_of_dict_set split: if_splits sum.splits)
  from Cons.IH [OF r kt] f show ?case by simp
qed

lemma film_fields_loop_falsy:
  assumes "film_fields_loop t raw c p e = Inr (c', p', e')"
    and "(key, api) \<in> set t"
    and "distinct (map fst t)"
    and "\<not> truthy (dict_get raw api)"
    and "map_of c (PyStr key) = None"
  shows "map_of c' (PyStr key) = None \<and> key \<in> set e'"
  using assms
proof (induction t arbitrary: c p e)
  case Nil
  then show ?case by simp
next
  case (Cons a t)
  obtain key' api' where a: "a = (key', api')" by (cases a)
  show ?case
  proof (cases "(key', api') = (key, api)")
    case True
    with Cons.prems(3) a have nk: "key \<notin> fst ` set t" by auto
    from Cons.prems(1,4) a True
    have r: "film_fields_loop t raw c p (e @ [key]) = Inr (c', p', e')" by simp
    from film_fields_loop_frame [OF r nk] Cons.prems(5) show ?thesis by simp
  next
    case False
    with Cons.prems(2) a have m: "(key, api) \<in> set t" by auto
    with Cons.prems(3) a have kk: "key' \<noteq> key" by force
    from Cons.prems(3) have d: "distinct (map fst t)" by simp
    from Cons.prems(1) a obtain c1 p1 e1 where
      r: "film_fields_loop t raw c1 p1 e1 = Inr (c', p', e')"
      and f: "map_of c1 (PyStr key) = map_of c (PyStr key)"
      using kk
      by (auto simp: Let_def map_of_dict_set split: if_splits sum.splits)
    from Cons.IH [OF r m d Cons.prems(4)] f Cons.prems(5) show ?thesis by simp
  qed
qed

lemma film_fields_loop_error:
  assumes "film_fields_loop t raw c p e = Inl x"
  shows "x = OverflowError \<and>
         (\<exists>api. (''runtime'', api) \<in> set t \<and> truthy (dict_get raw api) \<and>
                py_int (dict_get raw api) = Inl OverflowError)"
  using assms
proof (induction t arbitrary: c p e)
  case Nil
  then show ?case by simp
next
  case (Cons a t)
  obtain key api where a: "a = (key, api)" by (cases a)
  from Cons.prems a consider
    (here) "key = ''runtime''" "truthy (dict_get raw api)" "py_int (dict_get raw api) = Inl x"
      "x \<noteq> TypeError" "x \<noteq> ValueError"
    | (later) c1 p1 e1 where "film_fields_loop t raw c1 p1 e1 = Inl x"
    by (auto simp: Let_def split: if_splits sum.splits)
  then show ?case
  proof cases
    case here
    with py_int_errors [OF here(3)] a show ?thesis by auto
  next
    case later
    from Cons.IH [OF later] show ?thesis by auto
  qed
qed

lemma film_table_distinct: "distinct (map fst FILM_INFO_STRUCTURE)"
  by (simp add: FILM_INFO_STRUCTURE_def)

lemma film_table_runtime: "(''runtime'', api) \<in> set FILM_INFO_STRUCTURE \<Longrightarrow> api = ''filmLength''"
  by (simp add: FILM_INFO_STRUCTURE_def)

text \<open>
  C8. For every raw film record and every row of the field-name table whose source value
  is absent or false: the document that \<^verbatim>\<open>get_clean_film_info\<close> produces
  has no such key, and the key is in \<^verbatim>\<open>empty_fields\<close>. The function produces
  a document unless \<^verbatim>\<open>int()\<close> of the running time raises
  \<^verbatim>\<open>OverflowError\<close>, which is not caught.
\<close>

theorem falsy_field_omitted_and_listed:
  assumes "(key, api_field) \<in> set FILM_INFO_STRUCTURE"
    and "\<not> truthy (dict_get raw api_field)"
  shows "case film_fields (PyDict raw) of
           Inr (clean_film_info, posters_urls, empty_fields) \<Rightarrow>
             map_of clean_film_info (PyStr key) = None \<and> key \<in> set empty_fields \<and>
             get_clean_film_info (PyDict raw) =
               Inr (PyDict clean_film_info, PyDict posters_urls, join '', '' empty_fields)
         | Inl e \<Rightarrow>
             e = OverflowError \<and> get_clean_film_info (PyDict raw) = Inl OverflowError \<and>
             py_int (dict_get raw ''filmLength'') = Inl OverflowError"
proof (cases "film_fields (PyDict raw)")
  case (Inl e)
  then have "film_fields_loop FILM_INFO_STRUCTURE raw []
      [(PyStr ''poster'', PyNone), (PyStr ''cover'', PyNone)] [] = Inl e"
    by (simp add: film_fields_def)
  from film_fields_loop_error [OF this] film_table_runtime Inl show ?thesis
    by (auto simp: get_clean_film_info_def)
next
  case (Inr r)
  obtain c p e where r: "r = (c, p, e)" by (cases r)
  with Inr have "film_fields_loop FILM_INFO_STRUCTURE raw []
      [(PyStr ''poster'', PyNone), (PyStr ''cover'', PyNone)] [] = Inr (c, p, e)"
    by (simp add: film_fields_def)
  from film_fields_loop_falsy [OF this assms(1) film_table_distinct assms(2)] Inr r
  show ?thesis by (simp add: get_clean_film_info_def)
qed


theorem falsy_field_omitted_and_listed_witness:
  "film_fields (PyDict demo_film) =
     Inr ([(PyStr ''title'', PyStr ''Inception''), (PyStr ''year'', PyInt 2010),
           (PyStr ''runtime'', PyInt 8880), (PyStr ''kinopoisk_id'', PyInt 2)],
          [(PyStr ''poster'', PyStr ''http://img/p2.jpg''), (PyStr ''cover'', PyNone),
           (PyStr ''fanart'', PyStr ''http://img/c2.jpg'')],
          [''originaltitle'', ''plot'', ''rating'', ''votes'', ''mpaa'', ''certification'',
           ''genres'', ''countries'']) \<and>
   get_clean_film_info (PyDict demo_film) =
     Inr (PyDict [(PyStr ''title'', PyStr ''Inception''), (PyStr ''year'', PyInt 2010),
                  (PyStr ''runtime'', PyInt 8880), (PyStr ''kinopoisk_id'', PyInt 2)],
          PyDict [(PyStr ''poster'', PyStr ''http://img/p2.jpg''), (PyStr ''cover'', PyNone),
                  (PyStr ''fanart'', PyStr ''http://img/c2.jpg'')],
          ''originaltitle, plot, rating, votes, mpaa, certification, genres, countries'')"
proof -
  have m: "(''plot'', ''description'') \<in> set FILM_INFO_STRUCTURE"
    by (simp add: FILM_INFO_STRUCTURE_def)
  have f: "\<not> truthy (dict_get demo_film ''description'')"
    by (simp add: demo_film_def dict_get_def)
  have e: "film_fields (PyDict demo_film) =
     Inr ([(PyStr ''title'', PyStr ''Inception''), (PyStr ''year'', PyInt 2010),
           (PyStr ''runtime'', PyInt 8880), (PyStr ''kinopoisk_id'', PyInt 2)],
          [(PyStr ''poster'', PyStr ''http://img/p2.jpg''), (PyStr ''cover'', PyNone),
           (PyStr ''fanart'', PyStr ''http://img/c2.jpg'')],
          [''originaltitle'', ''plot'', ''rating'', ''votes'', ''mpaa'', ''certification'',
           ''genres'', ''countries''])"
    by (simp add: film_fields_def FILM_INFO_STRUCTURE_def demo_film_def dict_get_def)
  from falsy_field_omitted_and_listed [OF m f] e show ?thesis by simp
qed


lemma film_fields_returns:
  assumes "py_int (dict_get raw ''filmLength'') \<noteq> Inl OverflowError"
  shows "\<exists>c p e. film_fields (PyDict raw) = Inr (c, p, e)"
proof (cases "film_fields (PyDict raw)")
  case (Inl x)
  then have "film_fields_loop FILM_INFO_STRUCTURE raw []
      [(PyStr ''poster'', PyNone), (PyStr ''cover'', PyNone)] [] = Inl x"
    by (simp add: film_fields_def)
  from film_fields_loop_error [OF this] film_table_runtime assms show ?thesis by auto
next
  case (Inr r)
  then show ?thesis by (cases r) auto
qed





section \<open>Key extraction\<close>







lemma rstrip_eq_Nil: "rstrip X = [] \<longleftrightarrow> (\<forall>x\<in>set X. py_isspace x)"
  by (simp add: rstrip_def dropWhile_eq_Nil_conv)




















section \<open>The folder pipeline on the examples\<close>

lemmas key_simps = get_film_name_year_def year_stamp_here_def ascii_digit_def sub_splitters_def
  is_splitter_def strip_def lstrip_def rstrip_def py_isspace_def

lemma demo_key: "get_film_name_year ''Inception.2010.1080p'' = Inr (''Inception'', ''2010'')"
  by (simp add: key_simps)

lemma demo_key_stalker: "get_film_name_year ''Stalker.1979'' = Inr (''Stalker'', ''1979'')"
  by (simp add: key_simps)

lemma demo_key_none: "get_film_name_year ''holiday_video'' = Inl NoYearError"
  by (simp add: key_simps)

lemma str_int_demo: "str_int 2 = Inr ''2''" "str_int 9 = Inr ''9''"
  "str_int 2010 = Inr ''2010''" "str_int 8880 = Inr ''8880''" "str_int 0 = Inr ''0''"
  by (simp_all add: str_int_simps)

lemmas search_simps = get_film_id_def demo_env_def demo_search_def check_request_status_def
  search_body_def resolve_films_def search_hit_def isdigit_def isdigit_char_def

lemma demo_id: "get_film_id demo_env ''Inception'' ''2010'' =
    Inr (Some (True, ''2'', Msg_year_found (PyStr ''Inception'') ''2010''))"
  by (simp add: search_simps str_int_demo)

lemma demo_id_stalker: "get_film_id demo_env ''Stalker'' ''1979'' =
    Inr (Some (True, ''9'', Msg_year_found (PyStr ''Stalker'') ''1979''))"
  by (simp add: search_simps str_int_demo)

lemma demo_raw: "get_raw_film_info demo_env ''2'' = Inr (Some (PyDict demo_film))"
  "get_raw_film_info demo_env ''9'' = Inr (Some (PyDict demo_untitled))"
  by (simp_all add: get_raw_film_info_def demo_env_def demo_film_api_def check_request_status_def
      film_body_def)

lemma demo_staff: "get_raw_staff_info demo_env ''2'' MAX_ACTORS = Inr (Some demo_roster)"
  "get_raw_staff_info demo_env ''9'' MAX_ACTORS = Inr (Some demo_roster)"
  by (simp_all add: get_raw_staff_info_def demo_env_def demo_staff_api_def check_request_status_def
      staff_body_def demo_cast_def MAX_ACTORS_def demo_roster_def)

lemma demo_clean: "get_clean_film_info (PyDict demo_film) =
     Inr (demo_document, demo_posters,
          ''originaltitle, plot, rating, votes, mpaa, certification, genres, countries'')"
  by (simp add: get_clean_film_info_def film_fields_def FILM_INFO_STRUCTURE_def demo_film_def
      dict_get_def demo_document_def demo_posters_def)

lemma demo_clean_staff: "get_clean_staff_info demo_roster =
     Inr (demo_clean_staff, demo_photos, ''Christopher Nolan'')"
  by (simp add: get_clean_staff_info_def demo_roster_def person_step_def dict_get_def
      join_values_def demo_clean_staff_def demo_photos_def Let_def)

lemma demo_nfo: "create_nfo demo_env demo_document demo_clean_staff (PyStr ''/media'')
      (PyStr ''Inception.2010.1080p'') =
     ((True, Msg_nfo_created), [Write_file ''/media/Inception.2010.1080p.nfo'' ''<movie/>''])"
  by (simp add: create_nfo_def create_nfo_body_def demo_document_def demo_clean_staff_def
      path_join_def demo_env_def str_int_demo dict_get_def)

lemma demo_artwork: "create_posters demo_env demo_posters demo_photos (PyStr ''/media'')
      (PyStr ''Inception.2010.1080p'') =
     ((True, Msg_posters_saved),
      [Write_file ''/media/Inception.2010.1080p-poster.jpg'' ''bytes of http://img/p2.jpg'',
       Write_file ''/media/Inception.2010.1080p-fanart.jpg'' ''bytes of http://img/c2.jpg'',
       Make_dirs ''/media/.actors'',
       Write_file ''/media/.actors/Leonardo_DiCaprio.jpg'' ''bytes of http://img/a1.jpg''])"
  by (simp add: create_posters_def create_posters_body_def demo_posters_def demo_photos_def
      path_join_def demo_env_def demo_fetch_def underscores_def)


lemma demo_summary:
  "getitem demo_document ''title'' = Inr (PyStr ''Inception'')"
  "getitem demo_document ''year'' = Inr (PyInt 2010)"
  by (simp_all add: demo_document_def)

lemma demo_file: "process_file demo_env ''/media'' ''Inception.2010.1080p'' =
   (Inr [Msg_summary (PyStr ''Inception'') (PyInt 2010), Msg_nfo_created, Msg_posters_saved],
    [Write_file ''/media/Inception.2010.1080p.nfo'' ''<movie/>'',
     Write_file ''/media/Inception.2010.1080p-poster.jpg'' ''bytes of http://img/p2.jpg'',
     Write_file ''/media/Inception.2010.1080p-fanart.jpg'' ''bytes of http://img/c2.jpg'',
     Make_dirs ''/media/.actors'',
     Write_file ''/media/.actors/Leonardo_DiCaprio.jpg'' ''bytes of http://img/a1.jpg''])"
  by (simp add: process_file_def demo_key demo_id demo_raw demo_staff demo_clean demo_clean_staff
      demo_nfo demo_artwork demo_summary)

lemma splitext_demo:
  "splitext ''Inception.2010.1080p.mkv'' = (''Inception.2010.1080p'', ''.mkv'')"
  "splitext ''Stalker.1979.mkv'' = (''Stalker.1979'', ''.mkv'')"
  "splitext ''holiday_video.mkv'' = (''holiday_video'', ''.mkv'')"
  "splitext ''notes.txt'' = (''notes'', ''.txt'')"
  by (simp_all add: splitext_def)


lemma files_loop_append:
  "files_loop w root files (pre @ rest) n message =
     (case files_loop w root files pre n message of
        (Inl e, effs) \<Rightarrow> (Inl e, effs)
      | (Inr (n', message'), effs) \<Rightarrow>
          (case files_loop w root files rest n' message' of (r, effs') \<Rightarrow> (r, effs @ effs')))"
proof (induction pre arbitrary: n message)
  case Nil
  show ?case by (simp split: prod.splits)
next
  case (Cons f pre)
  show ?case
    by (simp add: Cons.IH split: prod.splits sum.splits)
qed

lemma files_loop_raise:
  assumes "splitext file = (raw_file_name, ext)"
    and "ext \<in> set VIDEO_EXT"
    and "\<not> is_nfo_file_exists raw_file_name files"
    and "process_file w root raw_file_name = (Inl e, effs)"
  shows "files_loop w root files (file # rest) n message = (Inl e, effs)"
  using assms by simp

lemma process_folder_raise:
  assumes "files_loop w root (pre @ file # rest) pre 0 [] = (Inr (n, message), effs)"
    and "splitext file = (raw_file_name, ext)"
    and "ext \<in> set VIDEO_EXT"
    and "\<not> is_nfo_file_exists raw_file_name (pre @ file # rest)"
    and "process_file w root raw_file_name = (Inl e, effs')"
  shows "process_folder w root (pre @ file # rest) = (Inl e, effs @ effs')"
  unfolding process_folder_def files_loop_append [of w root _ pre "file # rest"]
  using assms(1) files_loop_raise [OF assms(2-5)] by simp

lemma main_round_raise:
  assumes "process_folder w root files = (Inl e, effs)"
  shows "main_round w ((root, files) # others) = (Report_failure e, effs)"
  using assms by (simp add: main_round_def)


lemma film_fields_falsy:
  assumes "film_fields (PyDict raw) = Inr (c, p, e)"
    and "(key, api) \<in> set FILM_INFO_STRUCTURE"
    and "\<not> truthy (dict_get raw api)"
  shows "map_of c (PyStr key) = None \<and> key \<in> set e"
proof -
  from assms(1) have "film_fields_loop FILM_INFO_STRUCTURE raw []
      [(PyStr ''poster'', PyNone), (PyStr ''cover'', PyNone)] [] = Inr (c, p, e)"
    by (simp add: film_fields_def)
  from film_fields_loop_falsy [OF this assms(2) film_table_distinct assms(3)] show ?thesis by simp
qed

lemma process_file_key_error:
  assumes "get_film_name_year raw_file_name = Inr (title, year)"
    and "get_film_id w title year = Inr (Some (is_ok, film_id, msg_id))"
    and "get_raw_film_info w film_id = Inr (Some (PyDict raw))"
    and "get_raw_staff_info w film_id MAX_ACTORS = Inr (Some staff)"
    and "py_int (dict_get raw ''filmLength'') \<noteq> Inl OverflowError"
    and "\<not> truthy (dict_get raw ''nameRu'') \<or> \<not> truthy (dict_get raw ''year'')"
  shows "\<exists>key. (key = ''title'' \<or> key = ''year'') \<and>
           process_file w root raw_file_name = (Inl (KeyError (PyStr key)), [])"
proof -
  from film_fields_returns [OF assms(5)] obtain c p e where
    f: "film_fields (PyDict raw) = Inr (c, p, e)" by blast
  then have g: "get_clean_film_info (PyDict raw) = Inr (PyDict c, PyDict p, join '', '' e)"
    by (simp add: get_clean_film_info_def)
  have t: "(''title'', ''nameRu'') \<in> set FILM_INFO_STRUCTURE"
    and y: "(''year'', ''year'') \<in> set FILM_INFO_STRUCTURE"
    by (simp_all add: FILM_INFO_STRUCTURE_def)
  show ?thesis
  proof (cases "map_of c (PyStr ''title'')")
    case None
    with assms(1-4) g have "process_file w root raw_file_name = (Inl (KeyError (PyStr ''title'')), [])"
      by (simp add: process_file_def)
    then show ?thesis by blast
  next
    case (Some v)
    with film_fields_falsy [OF f t] have "truthy (dict_get raw ''nameRu'')" by auto
    with assms(6) have "\<not> truthy (dict_get raw ''year'')" by simp
    from film_fields_falsy [OF f y this] have "map_of c (PyStr ''year'') = None" by simp
    with Some assms(1-4) g
    have "process_file w root raw_file_name = (Inl (KeyError (PyStr ''year'')), [])"
      by (simp add: process_file_def)
    then show ?thesis by blast
  qed
qed

text \<open>
  C10. A file is eligible, its key is extracted, the three lookups succeed, and the raw
  film record has no true value for \<^verbatim>\<open>nameRu\<close> or for \<^verbatim>\<open>year\<close>
  (which normalization accepts, see C8). Then the summary line raises
  \<^verbatim>\<open>KeyError\<close> for \<^verbatim>\<open>title\<close> or \<^verbatim>\<open>year\<close>; it leaves
  \<^verbatim>\<open>process_folder\<close> with the effects of the earlier files only, and the
  round of \<^verbatim>\<open>main\<close> ends in its \<^verbatim>\<open>except\<close> branch.
\<close>

theorem summary_line_key_error:
  assumes "files = pre @ file # rest"
    and "files_loop w root files pre 0 [] = (Inr (n, message), effs)"
    and "splitext file = (raw_file_name, ext)"
    and "ext \<in> set VIDEO_EXT"
    and "\<not> is_nfo_file_exists raw_file_name files"
    and "get_film_name_year raw_file_name = Inr (title, year)"
    and "get_film_id w title year = Inr (Some (is_ok, film_id, msg_id))"
    and "get_raw_film_info w film_id = Inr (Some (PyDict raw))"
    and "get_raw_staff_info w film_id MAX_ACTORS = Inr (Some staff)"
    and "py_int (dict_get raw ''filmLength'') \<noteq> Inl OverflowError"
    and "\<not> truthy (dict_get raw ''nameRu'') \<or> \<not> truthy (dict_get raw ''year'')"
  shows "\<exists>key. (key = ''title'' \<or> key = ''year'') \<and>
           process_folder w root files = (Inl (KeyError (PyStr key)), effs) \<and>
           main_round w ((root, files) # others) = (Report_failure (KeyError (PyStr key)), effs)"
proof -
  from process_file_key_error [OF assms(6-11)] obtain key where
    k: "key = ''title'' \<or> key = ''year''"
    and p: "process_file w root raw_file_name = (Inl (KeyError (PyStr key)), [])"
    by blast
  from process_folder_raise [OF assms(2) [unfolded assms(1)] assms(3,4) assms(5) [unfolded assms(1)] p]
  have f: "process_folder w root files = (Inl (KeyError (PyStr key)), effs)"
    by (simp add: assms(1))
  from main_round_raise [OF f] k f show ?thesis by blast
qed

lemma demo_file_stalker:
  "process_file demo_env ''/media'' ''Stalker.1979'' = (Inl (KeyError (PyStr ''title'')), [])"
  by (simp add: process_file_def demo_key_stalker demo_id_stalker demo_raw demo_staff
      get_clean_film_info_def film_fields_def FILM_INFO_STRUCTURE_def demo_untitled_def dict_get_def)

theorem summary_line_key_error_witness:
  "process_folder demo_env ''/media'' [''Stalker.1979.mkv'', ''Inception.2010.1080p.mkv'']
     = (Inl (KeyError (PyStr ''title'')), []) \<and>
   main_round demo_env [(''/media'', [''Stalker.1979.mkv'', ''Inception.2010.1080p.mkv''])]
     = (Report_failure (KeyError (PyStr ''title'')), [])"
proof -
  let ?files = "[''Stalker.1979.mkv'', ''Inception.2010.1080p.mkv'']"
  have a: "?files = [] @ ''Stalker.1979.mkv'' # [''Inception.2010.1080p.mkv'']" by simp
  have b: "files_loop demo_env ''/media'' ?files [] 0 [] = (Inr (0, []), [])" by simp
  have c: "''.mkv'' \<in> set VIDEO_EXT" by (simp add: VIDEO_EXT_def)
  have d: "\<not> is_nfo_file_exists ''Stalker.1979'' ?files" by simp
  have e: "py_int (dict_get demo_untitled ''filmLength'') \<noteq> Inl OverflowError"
    by (simp add: demo_untitled_def dict_get_def)
  have f: "\<not> truthy (dict_get demo_untitled ''nameRu'') \<or> \<not> truthy (dict_get demo_untitled ''year'')"
    by (simp add: demo_untitled_def dict_get_def)
  from summary_line_key_error [OF a b splitext_demo(2) c d demo_key_stalker demo_id_stalker
      demo_raw(2) demo_staff(2) e f, of "[]"]
  obtain key where k: "process_folder demo_env ''/media'' ?files = (Inl (KeyError (PyStr key)), [])"
    "main_round demo_env [(''/media'', ?files)] = (Report_failure (KeyError (PyStr key)), [])"
    by blast
  have "process_folder demo_env ''/media'' ?files = (Inl (KeyError (PyStr ''title'')), [])"
    by (simp add: process_folder_def splitext_demo VIDEO_EXT_def demo_file_stalker)
  with k show ?thesis by simp
qed


text \<open>
  C3, as amended. When an eligible file has no year in its name, or its search gives an
  empty list or status 404, the exception leaves \<^verbatim>\<open>process_folder\<close>: the
  result is that exception with the effects of the files before it, whatever files
  follow, and the round of \<^verbatim>\<open>main\<close> reports the failure without visiting the
  remaining folders.
\<close>

theorem file_failure_leaves_folder:
  assumes "files = pre @ file # rest"
    and "files_loop w root files pre 0 [] = (Inr (n, message), effs)"
    and "splitext file = (raw_file_name, ext)"
    and "ext \<in> set VIDEO_EXT"
    and "\<not> is_nfo_file_exists raw_file_name files"
  shows "(get_film_name_year raw_file_name = Inl NoYearError \<longrightarrow>
            process_folder w root files = (Inl NoYearError, effs) \<and>
            main_round w ((root, files) # others) = (Report_failure NoYearError, effs)) \<and>
         (\<forall>title year.
            get_film_name_year raw_file_name = Inr (title, year) \<and>
            get_film_id w title year = Inl NoFilmsError \<longrightarrow>
            process_folder w root files = (Inl NoFilmsError, effs) \<and>
            main_round w ((root, files) # others) = (Report_failure NoFilmsError, effs)) \<and>
         (\<forall>title year.
            get_film_name_year raw_file_name = Inr (title, year) \<and>
            get_film_id w title year = Inr None \<longrightarrow>
            process_folder w root files = (Inl NotFoundError, effs) \<and>
            main_round w ((root, files) # others) = (Report_failure NotFoundError, effs))"
proof -
  have r: "process_folder w root files = (Inl e, effs) \<and>
           main_round w ((root, files) # others) = (Report_failure e, effs)"
    if p: "process_file w root raw_file_name = (Inl e, [])" for e
  proof -
    from process_folder_raise [OF assms(2) [unfolded assms(1)] assms(3,4) assms(5) [unfolded assms(1)] p]
    have f: "process_folder w root files = (Inl e, effs)" by (simp add: assms(1))
    from main_round_raise [OF f] f show ?thesis by simp
  qed
  have a: "process_file w root raw_file_name = (Inl NoYearError, [])"
    if "get_film_name_year raw_file_name = Inl NoYearError"
    using that by (simp add: process_file_def)
  have b: "process_file w root raw_file_name = (Inl NoFilmsError, [])"
    if "get_film_name_year raw_file_name = Inr (title, year)"
      "get_film_id w title year = Inl NoFilmsError" for title year
    using that by (simp add: process_file_def)
  have c: "process_file w root raw_file_name = (Inl NotFoundError, [])"
    if "get_film_name_year raw_file_name = Inr (title, year)"
      "get_film_id w title year = Inr None" for title year
    using that by (simp add: process_file_def)
  from r [OF a] r [OF b] r [OF c] show ?thesis by blast
qed

theorem file_failure_leaves_folder_witness:
  "process_folder demo_env ''/media''
     [''Inception.2010.1080p.mkv'', ''notes.txt'', ''holiday_video.mkv'', ''Stalker.1979.mkv'']
     = (Inl NoYearError,
        [Write_file ''/media/Inception.2010.1080p.nfo'' ''<movie/>'',
         Write_file ''/media/Inception.2010.1080p-poster.jpg'' ''bytes of http://img/p2.jpg'',
         Write_file ''/media/Inception.2010.1080p-fanart.jpg'' ''bytes of http://img/c2.jpg'',
         Make_dirs ''/media/.actors'',
         Write_file ''/media/.actors/Leonardo_DiCaprio.jpg'' ''bytes of http://img/a1.jpg'']) \<and>
   main_round demo_env
     [(''/media'',
       [''Inception.2010.1080p.mkv'', ''notes.txt'', ''holiday_video.mkv'', ''Stalker.1979.mkv'']),
      (''/media/more'', [''Inception.2010.1080p.mkv''])]
     = (Report_failure NoYearError,
        [Write_file ''/media/Inception.2010.1080p.nfo'' ''<movie/>'',
         Write_file ''/media/Inception.2010.1080p-poster.jpg'' ''bytes of http://img/p2.jpg'',
         Write_file ''/media/Inception.2010.1080p-fanart.jpg'' ''bytes of http://img/c2.jpg'',
         Make_dirs ''/media/.actors'',
         Write_file ''/media/.actors/Leonardo_DiCaprio.jpg'' ''bytes of http://img/a1.jpg''])"
proof -
  let ?files = "[''Inception.2010.1080p.mkv'', ''notes.txt'', ''holiday_video.mkv'', ''Stalker.1979.mkv'']"
  let ?effs = "[Write_file ''/media/Inception.2010.1080p.nfo'' ''<movie/>'',
         Write_file ''/media/Inception.2010.1080p-poster.jpg'' ''bytes of http://img/p2.jpg'',
         Write_file ''/media/Inception.2010.1080p-fanart.jpg'' ''bytes of http://img/c2.jpg'',
         Make_dirs ''/media/.actors'',
         Write_file ''/media/.actors/Leonardo_DiCaprio.jpg'' ''bytes of http://img/a1.jpg'']"
  have a: "?files = [''Inception.2010.1080p.mkv'', ''notes.txt''] @ ''holiday_video.mkv'' # [''Stalker.1979.mkv'']"
    by simp
  have b: "files_loop demo_env ''/media'' ?files [''Inception.2010.1080p.mkv'', ''notes.txt''] 0 []
      = (Inr (1, [Msg_summary (PyStr ''Inception'') (PyInt 2010), Msg_nfo_created, Msg_posters_saved]),
         ?effs)"
    by (simp add: splitext_demo VIDEO_EXT_def demo_file)
  have c: "''.mkv'' \<in> set VIDEO_EXT" by (simp add: VIDEO_EXT_def)
  have d: "\<not> is_nfo_file_exists ''holiday_video'' ?files" by simp
  from file_failure_leaves_folder [OF a b splitext_demo(3) c d,
      of "[(''/media/more'', [''Inception.2010.1080p.mkv''])]"] demo_key_none
  show ?thesis by simp
qed

text \<open>
  The claim as stated fails: the second file of this folder is eligible and is processed
  when it stands alone, and nothing is done for it after the first file's
  \<^verbatim>\<open>NoYearError\<close>.
\<close>

theorem later_files_not_processed_counterexample:
  "process_folder demo_env ''/media'' [''holiday_video.mkv'', ''Inception.2010.1080p.mkv'']
     = (Inl NoYearError, []) \<and>
   process_folder demo_env ''/media'' [''Inception.2010.1080p.mkv'']
     = (Inr (1, [Msg_summary (PyStr ''Inception'') (PyInt 2010), Msg_nfo_created,
                 Msg_posters_saved]),
        [Write_file ''/media/Inception.2010.1080p.nfo'' ''<movie/>'',
         Write_file ''/media/Inception.2010.1080p-poster.jpg'' ''bytes of http://img/p2.jpg'',
         Write_file ''/media/Inception.2010.1080p-fanart.jpg'' ''bytes of http://img/c2.jpg'',
         Make_dirs ''/media/.actors'',
         Write_file ''/media/.actors/Leonardo_DiCaprio.jpg'' ''bytes of http://img/a1.jpg''])"
proof -
  have "process_file demo_env ''/media'' ''holiday_video'' = (Inl NoYearError, [])"
    by (simp add: process_file_def demo_key_none)
  then show ?thesis
    by (simp add: process_folder_def splitext_demo VIDEO_EXT_def demo_file)
qed

section \<open>Artwork\<close>








section \<open>The output stage\<close>

lemma output_env_lookups:
  "get_film_id (w\<lparr>fetch := f, render := g, makedirs := h, write_file := k\<rparr>) title year
     = get_film_id w title year"
  "get_raw_film_info (w\<lparr>fetch := f, render := g, makedirs := h, write_file := k\<rparr>) film_id
     = get_raw_film_info w film_id"
  "get_raw_staff_info (w\<lparr>fetch := f, render := g, makedirs := h, write_file := k\<rparr>) film_id m
     = get_raw_staff_info w film_id m"
  by (simp_all add: get_film_id_def get_raw_film_info_def get_raw_staff_info_def
      split: http_result.splits sum.splits)

lemma process_file_raised:
  "raised (process_file (w\<lparr>fetch := f, render := g, makedirs := h, write_file := k\<rparr>) root name)
     = raised (process_file w root name)"
  unfolding process_file_def output_env_lookups raised_def
  by (simp split: sum.splits option.splits prod.splits)

lemma raised_cases:
  "raised r = Some e \<longleftrightarrow> (\<exists>effs. r = (Inl e, effs))"
  "raised r = None \<longleftrightarrow> (\<exists>x effs. r = (Inr x, effs))"
  by (cases r; cases "fst r"; simp add: raised_def)+

lemma files_loop_raised_counted:
  "raised (files_loop (w\<lparr>fetch := f, render := g, makedirs := h, write_file := k\<rparr>) root files rest n m')
     = raised (files_loop w root files rest n m) \<and>
   files_counted (files_loop (w\<lparr>fetch := f, render := g, makedirs := h, write_file := k\<rparr>) root files rest n m')
     = files_counted (files_loop w root files rest n m)"
proof (induction rest arbitrary: n m m')
  case Nil
  show ?case by (simp add: raised_def files_counted_def)
next
  case (Cons a rest)
  let ?w = "w\<lparr>fetch := f, render := g, makedirs := h, write_file := k\<rparr>"
  obtain name ext where s: "splitext a = (name, ext)" by (cases "splitext a")
  show ?case
  proof (cases "ext \<in> set VIDEO_EXT \<and> \<not> is_nfo_file_exists name files")
    case False
    with s Cons.IH [of n m' m] show ?thesis by auto
  next
    case True
    show ?thesis
    proof (cases "raised (process_file w root name)")
      case (Some e)
      then obtain effs where a1: "process_file w root name = (Inl e, effs)"
        by (auto simp: raised_cases)
      from Some have "raised (process_file ?w root name) = Some e"
        by (simp add: process_file_raised)
      then obtain effs' where a2: "process_file ?w root name = (Inl e, effs')"
        by (auto simp: raised_cases)
      from True s a1 a2 show ?thesis by (simp add: raised_def files_counted_def)
    next
      case None
      then obtain x effs where a1: "process_file w root name = (Inr x, effs)"
        by (auto simp: raised_cases)
      from None have "raised (process_file ?w root name) = None"
        by (simp add: process_file_raised)
      then obtain x' effs' where a2: "process_file ?w root name = (Inr x', effs')"
        by (auto simp: raised_cases)
      obtain r1 e1 where l1: "files_loop ?w root files rest (Suc n) (m' @ x') = (r1, e1)"
        by (cases "files_loop ?w root files rest (Suc n) (m' @ x')")
      obtain r2 e2 where l2: "files_loop w root files rest (Suc n) (m @ x) = (r2, e2)"
        by (cases "files_loop w root files rest (Suc n) (m @ x)")
      from Cons.IH [of "Suc n" "m' @ x'" "m @ x"] l1 l2
      have "raised (r1, e1) = raised (r2, e2) \<and> files_counted (r1, e1) = files_counted (r2, e2)"
        by simp
      with True s a1 a2 l1 l2 show ?thesis
        by (simp add: raised_def files_counted_def)
    qed
  qed
qed

text \<open>
  C9. For every input, \<^verbatim>\<open>create_nfo\<close> and \<^verbatim>\<open>create_posters\<close> return a
  pair: \<open>True\<close> with the success message when the body under \<^verbatim>\<open>try\<close> runs
  through, \<open>False\<close> with the message of the exception when it raises. So whatever
  the downloads, the rendering and the file system do, \<^verbatim>\<open>process_folder\<close>
  raises the same exception or none, and counts the same number of files.
\<close>

theorem output_failures_are_returned:
  "create_nfo w clean_film_info clean_staff_info path raw_file_name =
     (case create_nfo_body w clean_film_info clean_staff_info path raw_file_name of
        Inr written \<Rightarrow> ((True, Msg_nfo_created), [written])
      | Inl e \<Rightarrow> ((False, Msg_nfo_error e), [])) \<and>
   create_posters w posters_urls staff_posters path raw_file_name =
     (case create_posters_body w posters_urls staff_posters path raw_file_name of
        (None, effs) \<Rightarrow> ((True, Msg_posters_saved), effs)
      | (Some e, effs) \<Rightarrow> ((False, Msg_posters_error e), effs)) \<and>
   raised (process_folder (w\<lparr>fetch := f, render := g, makedirs := h, write_file := k\<rparr>) root files)
     = raised (process_folder w root files) \<and>
   files_counted (process_folder (w\<lparr>fetch := f, render := g, makedirs := h, write_file := k\<rparr>) root files)
     = files_counted (process_folder w root files)"
  using files_loop_raised_counted [where w = w and f = f and g = g and h = h and k = k
      and root = root and files = files and rest = files and n = 0 and m = "[]" and m' = "[]"]
  by (simp add: create_nfo_def create_posters_def process_folder_def)

theorem output_failures_are_returned_witness:
  "create_nfo read_only_env demo_document demo_clean_staff (PyStr ''/media'')
     (PyStr ''Inception.2010.1080p'') = ((False, Msg_nfo_error OSError), []) \<and>
   create_posters read_only_env demo_posters demo_photos (PyStr ''/media'')
     (PyStr ''Inception.2010.1080p'') = ((False, Msg_posters_error OSError), []) \<and>
   raised (process_folder read_only_env ''/media'' [''Inception.2010.1080p.mkv'']) = None \<and>
   files_counted (process_folder read_only_env ''/media'' [''Inception.2010.1080p.mkv'']) = Some 1"
proof -
  have b1: "create_nfo_body read_only_env demo_document demo_clean_staff (PyStr ''/media'')
     (PyStr ''Inception.2010.1080p'') = Inl OSError"
    by (simp add: create_nfo_body_def demo_document_def demo_clean_staff_def read_only_env_def
        str_int_simps dict_get_def demo_env_def)
  have b2: "create_posters_body read_only_env demo_posters demo_photos (PyStr ''/media'')
     (PyStr ''Inception.2010.1080p'') = (Some OSError, [])"
    by (simp add: create_posters_body_def demo_posters_def demo_photos_def read_only_env_def
        demo_env_def demo_fetch_def)
  have c: "process_folder demo_env ''/media'' [''Inception.2010.1080p.mkv''] =
      (Inr (1, [Msg_summary (PyStr ''Inception'') (PyInt 2010), Msg_nfo_created, Msg_posters_saved]),
       [Write_file ''/media/Inception.2010.1080p.nfo'' ''<movie/>'',
        Write_file ''/media/Inception.2010.1080p-poster.jpg'' ''bytes of http://img/p2.jpg'',
        Write_file ''/media/Inception.2010.1080p-fanart.jpg'' ''bytes of http://img/c2.jpg'',
        Make_dirs ''/media/.actors'',
        Write_file ''/media/.actors/Leonardo_DiCaprio.jpg'' ''bytes of http://img/a1.jpg''])"
    by (simp add: process_folder_def splitext_demo VIDEO_EXT_def demo_file)
  from output_failures_are_returned [where w = read_only_env and clean_film_info = demo_document
      and clean_staff_info = demo_clean_staff and path = "PyStr ''/media''"
      and raw_file_name = "PyStr ''Inception.2010.1080p''" and posters_urls = demo_posters
      and staff_posters = demo_photos]
    output_failures_are_returned [where w = demo_env and f = demo_fetch
      and g = "\<lambda>x. Inr ''<movie/>''" and h = "\<lambda>p. None" and k = "\<lambda>p. Some OSError"
      and root = "''/media''" and files = "[''Inception.2010.1080p.mkv'']"]
    b1 b2 c
  show ?thesis by (simp add: read_only_env_def raised_def files_counted_def)
qed

end
